theory Spec2Isabelle
  imports Main "HOL-Library.Word"
begin

section \<open>Job intake of the distributed scheduler (service/job.go)\<close>

text \<open>
  A shallow embedding of \<^verbatim>\<open>service/job.go\<close>: the two stream assemblers
  (\<^verbatim>\<open>receiveSyncJobStream\<close>, \<^verbatim>\<open>receiveAsyncJobStream\<close>), the
  persistence coordinator, the reconciler and the three RPC entry points.

  Go values are modelled as follows.
  \<^item> \<^verbatim>\<open>int32\<close> and \<^verbatim>\<open>int64\<close> are 32 and 64 bit words; \<open>+\<close> wraps
    as Go's does, \<open>sint\<close> reads the signed value.
  \<^item> a \<^verbatim>\<open>string\<close> or byte payload is a \<open>string\<close> (a list of bytes).
  \<^item> a pointer that may be \<^verbatim>\<open>nil\<close> is an \<open>option\<close>; dereferencing
    \<open>None\<close> is the run-time panic of Go, a value of the result type.
  \<^item> an \<^verbatim>\<open>error\<close> return is an \<open>error option\<close> (\<open>None\<close> is
    \<^verbatim>\<open>nil\<close>).
\<close>

subsection \<open>Data model\<close>

type_synonym int32 = "32 word"
type_synonym int64 = "64 word"

text \<open>
  Modelled from the spec: the structs \<^verbatim>\<open>model.Job\<close> and \<^verbatim>\<open>model.Task\<close>
  are declared in another package. The fields are those of the job and task tables of the
  specification, which are also the ones \<^verbatim>\<open>job.go\<close> reads or writes.
  \<^verbatim>\<open>job.go\<close> fixes \<^verbatim>\<open>Sharding\<close> and \<^verbatim>\<open>Size\<close> as \<^verbatim>\<open>int32\<close>
  (the counter of line 137, the conversion of line 169) and the names, the plugin set and
  the plugin as strings; identifiers are taken as \<^verbatim>\<open>int64\<close>, flags, status and
  policy as \<^verbatim>\<open>int32\<close>. A struct literal leaves every field it does not name at its
  zero value.
\<close>

record Job =
  Job_Id :: int64
  Job_Name :: string
  Job_Type :: string
  Job_PluginSet :: string
  Job_Label :: string
  Job_Source :: string
  Job_IsAsync :: int32
  Job_IsNotify :: int32
  Job_TaskExceptionOperation :: int32
  Job_Size :: int32
  Job_Status :: int32
  Job_Result :: string

record Task =
  Task_Id :: int64
  Task_JobId :: int64
  Task_Sharding :: int32
  Task_Name :: string
  Task_Input :: string
  Task_Plugin :: string
  Task_Status :: int32
  Task_Output :: string

text \<open>
  Modelled from the spec: \<^verbatim>\<open>dto.JobInfo\<close>, declared in another package, pairs one
  job with its ordered task list. \<^verbatim>\<open>job.go\<close> uses the field \<^verbatim>\<open>Job\<close> as a
  pointer (nil until the first chunk) and \<^verbatim>\<open>TaskList\<close> as a slice of task pointers,
  each task being allocated once and appended once.
\<close>

record JobInfo =
  JobInfo_Job :: "Job option"
  JobInfo_TaskList :: "Task list"

text \<open>
  Modelled from the spec: the two request messages of the streaming RPCs, generated from
  the protocol definition. One value is one chunk: job name, plugin list, label, source,
  exception policy and payload, and for asynchronous chunks the job type and the notify
  flag.
\<close>

record SyncSubmitRequest =
  SyncReq_Name :: string
  SyncReq_PluginSet :: "string list"
  SyncReq_Label :: string
  SyncReq_Source :: string
  SyncReq_TaskExceptionOperation :: int32
  SyncReq_Data :: string

record AsyncSubmitRequest =
  AsyncReq_Name :: string
  AsyncReq_Type :: string
  AsyncReq_PluginSet :: "string list"
  AsyncReq_Label :: string
  AsyncReq_Source :: string
  AsyncReq_TaskExceptionOperation :: int32
  AsyncReq_Data :: string
  AsyncReq_IsNotify :: bool

text \<open>
  Errors. \<^verbatim>\<open>errCode.ToGrpcErr\<close> wraps one of the service's own codes (the two
  that \<^verbatim>\<open>job.go\<close> names); every other non-nil error (transport, storage,
  execution engine) is opaque to the service and is only passed on.
\<close>

datatype errCode = ErrPluginSetEmpty | ErrJobNotFound

datatype error = ToGrpcErr errCode | ExternalErr string

text \<open>A call either returns or panics (nil dereference, explicit \<^verbatim>\<open>panic\<close>).\<close>

datatype 'a outcome = Return 'a | Panic string

definition nilDereference :: string where
  "nilDereference = ''invalid memory address or nil pointer dereference''"

text \<open>
  What \<^verbatim>\<open>stream.Recv()\<close> yields, call after call: a message or an error. The
  stream is the list of these results; an exhausted list is \<^verbatim>\<open>io.EOF\<close>.
\<close>

datatype 'r recv = Chunk 'r | RecvErr error

subsection \<open>Library functions used by the assemblers\<close>

text \<open>\<^verbatim>\<open>strings.Join(elems, sep)\<close>.\<close>

fun Join :: "string list \<Rightarrow> string \<Rightarrow> string" where
  "Join [] sep = []"
| "Join [e] sep = e"
| "Join (e # es) sep = e @ sep @ Join es sep"

text \<open>Decimal digits of a natural number, most significant first.\<close>

function decimal :: "nat \<Rightarrow> string" where
  "decimal n =
     (if n < 10 then [''0123456789'' ! n]
      else decimal (n div 10) @ [''0123456789'' ! (n mod 10)])"
  by pat_completeness auto
termination
  by (relation "measure (\<lambda>n. n)") auto

text \<open>The verb \<^verbatim>\<open>%d\<close> of \<^verbatim>\<open>fmt\<close> on a signed integer.\<close>

definition formatInt :: "int \<Rightarrow> string" where
  "formatInt i = (if i < 0 then CHR ''-'' # decimal (nat (- i)) else decimal (nat i))"

text \<open>\<^verbatim>\<open>fmt.Sprintf("%s-%d", name, sharding)\<close> with an \<^verbatim>\<open>int32\<close> argument.\<close>

definition Sprintf :: "string \<Rightarrow> int32 \<Rightarrow> string" where
  "Sprintf name sharding = name @ ''-'' @ formatInt (sint sharding)"

text \<open>
  Modelled from the spec: \<^verbatim>\<open>AppendSafeTask\<close> is a method of \<^verbatim>\<open>dto.JobInfo\<close>,
  which is not among the sources. Every chunk contributes exactly one task, in arrival
  order: the task is appended at the end of the task list.
\<close>

definition AppendSafeTask :: "JobInfo \<Rightarrow> Task \<Rightarrow> JobInfo" where
  "AppendSafeTask jobInfo task =
     jobInfo\<lparr>JobInfo_TaskList := JobInfo_TaskList jobInfo @ [task]\<rparr>"

subsection \<open>Stream assemblers\<close>

text \<open>The struct literal of lines 151 to 157: the job record made from a chunk.\<close>

definition syncJob :: "SyncSubmitRequest \<Rightarrow> Job" where
  "syncJob r =
     \<lparr>Job_Id = 0, Job_Name = SyncReq_Name r, Job_Type = [],
      Job_PluginSet = Join (SyncReq_PluginSet r) '','',
      Job_Label = SyncReq_Label r, Job_Source = SyncReq_Source r,
      Job_IsAsync = 0, Job_IsNotify = 0,
      Job_TaskExceptionOperation = SyncReq_TaskExceptionOperation r,
      Job_Size = 0, Job_Status = 0, Job_Result = []\<rparr>"

text \<open>
  Lines 192 to 203: the asynchronous literal also copies the type and marks the job
  asynchronous; the notify flag is set afterwards, when the chunk asks for it.
\<close>

definition asyncJob :: "AsyncSubmitRequest \<Rightarrow> Job" where
  "asyncJob r =
     (let job = \<lparr>Job_Id = 0, Job_Name = AsyncReq_Name r, Job_Type = AsyncReq_Type r,
                 Job_PluginSet = Join (AsyncReq_PluginSet r) '','',
                 Job_Label = AsyncReq_Label r, Job_Source = AsyncReq_Source r,
                 Job_IsAsync = 1, Job_IsNotify = 0,
                 Job_TaskExceptionOperation = AsyncReq_TaskExceptionOperation r,
                 Job_Size = 0, Job_Status = 0, Job_Result = []\<rparr>
      in if AsyncReq_IsNotify r then job\<lparr>Job_IsNotify := 1\<rparr> else job)"

text \<open>The task literal of lines 160 to 165 (and 206 to 211).\<close>

definition newTask :: "int32 \<Rightarrow> string \<Rightarrow> string \<Rightarrow> string \<Rightarrow> Task" where
  "newTask sharding jobName input plugin =
     \<lparr>Task_Id = 0, Task_JobId = 0, Task_Sharding = sharding,
      Task_Name = Sprintf jobName sharding, Task_Input = input, Task_Plugin = plugin,
      Task_Status = 0, Task_Output = []\<rparr>"

text \<open>
  The receive loop of \<^verbatim>\<open>receiveSyncJobStream\<close> (lines 138 to 167) on the loop state
  \<^verbatim>\<open>jobInfo\<close>, \<^verbatim>\<open>firstPlugin\<close>, \<^verbatim>\<open>sharding\<close>. \<open>Inl\<close> is an early
  \<^verbatim>\<open>return jobInfo, err\<close>; \<open>Inr\<close> is the \<^verbatim>\<open>break\<close> at end of stream.
  The job pointer is written only while it is nil, and \<^verbatim>\<open>firstPlugin\<close> with it.
\<close>

fun syncLoop ::
  "SyncSubmitRequest recv list \<Rightarrow> JobInfo \<Rightarrow> string \<Rightarrow> int32 \<Rightarrow> (JobInfo \<times> error) + JobInfo"
where
  "syncLoop [] jobInfo firstPlugin sharding = Inr jobInfo"
| "syncLoop (RecvErr err # rest) jobInfo firstPlugin sharding = Inl (jobInfo, err)"
| "syncLoop (Chunk r # rest) jobInfo firstPlugin sharding =
     (if length (SyncReq_PluginSet r) = 0 then Inl (jobInfo, ToGrpcErr ErrPluginSetEmpty)
      else
        let job = (case JobInfo_Job jobInfo of None \<Rightarrow> syncJob r | Some j \<Rightarrow> j);
            firstPlugin' = (case JobInfo_Job jobInfo of
                              None \<Rightarrow> SyncReq_PluginSet r ! 0
                            | Some j \<Rightarrow> firstPlugin);
            jobInfo' = AppendSafeTask (jobInfo\<lparr>JobInfo_Job := Some job\<rparr>)
                         (newTask sharding (Job_Name job) (SyncReq_Data r) firstPlugin')
        in syncLoop rest jobInfo' firstPlugin' (sharding + 1))"

text \<open>
  Lines 169 to 171. The size is written through the job pointer, so a nil pointer
  panics; \<^verbatim>\<open>int32(len(...))\<close> keeps the low 32 bits of the length.
\<close>

definition setSize :: "JobInfo \<Rightarrow> (JobInfo \<times> error option) outcome" where
  "setSize jobInfo =
     (case JobInfo_Job jobInfo of
        None \<Rightarrow> Panic nilDereference
      | Some j \<Rightarrow>
          Return (jobInfo\<lparr>JobInfo_Job :=
                    Some (j\<lparr>Job_Size := word_of_nat (length (JobInfo_TaskList jobInfo))\<rparr>)\<rparr>,
                  None))"

definition receiveSyncJobStream ::
  "SyncSubmitRequest recv list \<Rightarrow> (JobInfo \<times> error option) outcome"
where
  "receiveSyncJobStream stream =
     (case syncLoop stream \<lparr>JobInfo_Job = None, JobInfo_TaskList = []\<rparr> [] 0 of
        Inl (jobInfo, err) \<Rightarrow> Return (jobInfo, Some err)
      | Inr jobInfo \<Rightarrow> setSize jobInfo)"

text \<open>The receive loop of \<^verbatim>\<open>receiveAsyncJobStream\<close> (lines 179 to 213).\<close>

fun asyncLoop ::
  "AsyncSubmitRequest recv list \<Rightarrow> JobInfo \<Rightarrow> string \<Rightarrow> int32 \<Rightarrow> (JobInfo \<times> error) + JobInfo"
where
  "asyncLoop [] jobInfo firstPlugin sharding = Inr jobInfo"
| "asyncLoop (RecvErr err # rest) jobInfo firstPlugin sharding = Inl (jobInfo, err)"
| "asyncLoop (Chunk r # rest) jobInfo firstPlugin sharding =
     (if length (AsyncReq_PluginSet r) = 0 then Inl (jobInfo, ToGrpcErr ErrPluginSetEmpty)
      else
        let job = (case JobInfo_Job jobInfo of None \<Rightarrow> asyncJob r | Some j \<Rightarrow> j);
            firstPlugin' = (case JobInfo_Job jobInfo of
                              None \<Rightarrow> AsyncReq_PluginSet r ! 0
                            | Some j \<Rightarrow> firstPlugin);
            jobInfo' = AppendSafeTask (jobInfo\<lparr>JobInfo_Job := Some job\<rparr>)
                         (newTask sharding (Job_Name job) (AsyncReq_Data r) firstPlugin')
        in asyncLoop rest jobInfo' firstPlugin' (sharding + 1))"

definition receiveAsyncJobStream ::
  "AsyncSubmitRequest recv list \<Rightarrow> (JobInfo \<times> error option) outcome"
where
  "receiveAsyncJobStream stream =
     (case asyncLoop stream \<lparr>JobInfo_Job = None, JobInfo_TaskList = []\<rparr> [] 0 of
        Inl (jobInfo, err) \<Rightarrow> Return (jobInfo, Some err)
      | Inr jobInfo \<Rightarrow> setSize jobInfo)"

subsection \<open>Collaborators: repositories, execution engine, response stream\<close>

text \<open>
  The repositories, the execution engine and the response side of the stream are
  external to the service: they are parameters of the model, over a storage state \<open>'db\<close>
  that the service never inspects.
  \<^item> \<^verbatim>\<open>jobRepo.Save(tx, job)\<close> receives the job pointer: it may update the storage
    handle and the record behind the pointer (this is where the identifier is assigned),
    but not the caller's pointer. The update of the record is the function it returns.
  \<^item> \<^verbatim>\<open>taskRepo.BatchSave(tx, tasks)\<close> may update the handle and the task records.
  \<^item> \<^verbatim>\<open>jobRepo.FindById\<close> and \<^verbatim>\<open>taskRepo.List\<close> only read.
  \<^item> \<^verbatim>\<open>appCtx.StartJob(jobInfo)\<close> receives the aggregate by pointer and may update
    it and the storage.
  \<^item> \<^verbatim>\<open>stream.SendAndClose(response)\<close> returns the transport's error, if any.
\<close>

datatype response =
    AsyncSubmitResponse int64
  | SyncSubmitResponse int64 int32 string

record 'db env =
  jobRepo_Save :: "'db \<Rightarrow> Job option \<Rightarrow> error option \<times> (Job \<Rightarrow> Job) \<times> 'db"
  taskRepo_BatchSave :: "'db \<Rightarrow> Task list \<Rightarrow> error option \<times> Task list \<times> 'db"
  jobRepo_FindById :: "'db \<Rightarrow> int64 \<Rightarrow> Job option \<times> error option"
  taskRepo_List :: "'db \<Rightarrow> int64 \<Rightarrow> Task list \<times> error option"
  appCtx_StartJob :: "JobInfo \<Rightarrow> 'db \<Rightarrow> error option \<times> JobInfo \<times> 'db"
  stream_SendAndClose :: "response \<Rightarrow> error option"

text \<open>
  The observable world of one request: the committed storage state and the log of the
  calls made to the collaborators, each with its argument, in the order they were made.
\<close>

datatype call =
    CallSave "Job option"
  | CallBatchSave "Task list"
  | CallFindById int64
  | CallList int64
  | CallStartJob JobInfo
  | CallSendAndClose response

record 'db world =
  world_Db :: 'db
  world_calls :: "call list"

text \<open>The responses handed to \<^verbatim>\<open>SendAndClose\<close>, and the storage writes, of a log.\<close>

fun responses :: "call list \<Rightarrow> response list" where
  "responses [] = []"
| "responses (CallSendAndClose r # cs) = r # responses cs"
| "responses (c # cs) = responses cs"

fun isWrite :: "call \<Rightarrow> bool" where
  "isWrite (CallSave j) = True"
| "isWrite (CallBatchSave ts) = True"
| "isWrite c = False"

subsection \<open>Persistence coordinator\<close>

text \<open>
  Modelled from the spec: \<^verbatim>\<open>Db.Transaction\<close> belongs to the storage library.
  It runs the closure on a transaction handle opened on the current storage state; when
  the closure returns no error the handle's state is committed, and when it returns an
  error the whole transaction is rolled back, so that storage is as it was before, and
  the error is handed on. Memory the closure wrote through pointers (\<open>'m\<close>) is not part
  of the transaction.
\<close>

definition Transaction ::
  "('db \<Rightarrow> (error option \<times> 'm \<times> 'db) outcome) \<Rightarrow> 'db \<Rightarrow> (error option \<times> 'm \<times> 'db) outcome"
where
  "Transaction fc db =
     (case fc db of
        Panic p \<Rightarrow> Panic p
      | Return (None, m, tx) \<Rightarrow> Return (None, m, tx)
      | Return (Some err, m, tx) \<Rightarrow> Return (Some err, m, db))"

text \<open>
  The loop of lines 126 to 128: \<^verbatim>\<open>item.JobId = jobInfo.Job.Id\<close> for every task.
  The job pointer is dereferenced once per task.
\<close>

fun stampJobId :: "Job option \<Rightarrow> Task list \<Rightarrow> Task list outcome" where
  "stampJobId job [] = Return []"
| "stampJobId job (item # rest) =
     (case job of
        None \<Rightarrow> Panic nilDereference
      | Some j \<Rightarrow>
          (case stampJobId job rest of
             Panic p \<Rightarrow> Panic p
           | Return rest' \<Rightarrow> Return (item\<lparr>Task_JobId := Job_Id j\<rparr> # rest')))"

text \<open>The closure of lines 121 to 130, on the aggregate and the call log.\<close>

definition persistenceTx ::
  "'db env \<Rightarrow> JobInfo \<Rightarrow> call list \<Rightarrow> 'db
     \<Rightarrow> (error option \<times> (JobInfo \<times> call list) \<times> 'db) outcome"
where
  "persistenceTx s jobInfo log tx =
     (case jobRepo_Save s tx (JobInfo_Job jobInfo) of (err, upd, tx1) \<Rightarrow>
        let job1 = map_option upd (JobInfo_Job jobInfo);
            jobInfo1 = jobInfo\<lparr>JobInfo_Job := job1\<rparr>;
            log1 = log @ [CallSave (JobInfo_Job jobInfo)]
        in case err of
             Some e \<Rightarrow> Return (Some e, (jobInfo1, log1), tx1)
           | None \<Rightarrow>
               (case stampJobId job1 (JobInfo_TaskList jobInfo1) of
                  Panic p \<Rightarrow> Panic p
                | Return tasks \<Rightarrow>
                    (case taskRepo_BatchSave s tx1 tasks of (err2, tasks2, tx2) \<Rightarrow>
                       Return (err2, (jobInfo1\<lparr>JobInfo_TaskList := tasks2\<rparr>,
                                      log1 @ [CallBatchSave tasks]), tx2))))"

definition persistence ::
  "'db env \<Rightarrow> 'db world \<Rightarrow> JobInfo \<Rightarrow> (error option \<times> JobInfo \<times> 'db world) outcome"
where
  "persistence s w jobInfo =
     (case Transaction (persistenceTx s jobInfo (world_calls w)) (world_Db w) of
        Panic p \<Rightarrow> Panic p
      | Return (err, (jobInfo', log), db) \<Rightarrow>
          Return (err, jobInfo', \<lparr>world_Db = db, world_calls = log\<rparr>))"

subsection \<open>Reconciler\<close>

text \<open>
  \<^verbatim>\<open>reloadJobInfo\<close>, lines 101 to 117. The argument is a pointer: nil is replaced by
  an empty aggregate. Line 106 reads \<^verbatim>\<open>jobInfo.Job.Id\<close> before the call.
\<close>

definition reloadJobInfo ::
  "'db env \<Rightarrow> 'db world \<Rightarrow> JobInfo option \<Rightarrow> (JobInfo \<times> error option \<times> 'db world) outcome"
where
  "reloadJobInfo s w jobInfoPtr =
     (let jobInfo = (case jobInfoPtr of
                       None \<Rightarrow> \<lparr>JobInfo_Job = None, JobInfo_TaskList = []\<rparr>
                     | Some ji \<Rightarrow> ji)
      in case JobInfo_Job jobInfo of
           None \<Rightarrow> Panic nilDereference
         | Some j \<Rightarrow>
             (case jobRepo_FindById s (world_Db w) (Job_Id j) of (job, err) \<Rightarrow>
                let jobInfo1 = jobInfo\<lparr>JobInfo_Job := job\<rparr>;
                    w1 = w\<lparr>world_calls := world_calls w @ [CallFindById (Job_Id j)]\<rparr>
                in case err of
                     Some e \<Rightarrow> Return (jobInfo1, Some e, w1)
                   | None \<Rightarrow>
                       (case job of
                          None \<Rightarrow> Return (jobInfo1, Some (ToGrpcErr ErrJobNotFound), w1)
                        | Some j' \<Rightarrow>
                            (case taskRepo_List s (world_Db w) (Job_Id j') of (tasks, err2) \<Rightarrow>
                               Return (jobInfo1\<lparr>JobInfo_TaskList := tasks\<rparr>, err2,
                                       w1\<lparr>world_calls :=
                                            world_calls w1 @ [CallList (Job_Id j')]\<rparr>)))))"

subsection \<open>Entry points\<close>

text \<open>
  \<^verbatim>\<open>SyncSubmit\<close>, lines 66 to 98. The result is the error the handler returns and
  the world it leaves. Line 72 writes through the job pointer. After
  \<^verbatim>\<open>StartJob\<close> both the log line of the failure branch (line 89) and the response
  (lines 94 to 96) read through the job pointer.
\<close>

definition SyncSubmit ::
  "'db env \<Rightarrow> 'db world \<Rightarrow> SyncSubmitRequest recv list \<Rightarrow> (error option \<times> 'db world) outcome"
where
  "SyncSubmit s w stream =
     (case receiveSyncJobStream stream of
        Panic p \<Rightarrow> Panic p
      | Return (jobInfo, Some err) \<Rightarrow> Return (Some err, w)
      | Return (jobInfo, None) \<Rightarrow>
          (case JobInfo_Job jobInfo of
             None \<Rightarrow> Panic nilDereference
           | Some j \<Rightarrow>
               (case persistence s w (jobInfo\<lparr>JobInfo_Job := Some (j\<lparr>Job_IsAsync := 0\<rparr>)\<rparr>) of
                  Panic p \<Rightarrow> Panic p
                | Return (Some err, jobInfo2, w2) \<Rightarrow> Return (Some err, w2)
                | Return (None, jobInfo2, w2) \<Rightarrow>
                    (case reloadJobInfo s w2 (Some jobInfo2) of
                       Panic p \<Rightarrow> Panic p
                     | Return (jobInfo3, Some err, w3) \<Rightarrow> Return (Some err, w3)
                     | Return (jobInfo3, None, w3) \<Rightarrow>
                         (case appCtx_StartJob s jobInfo3 (world_Db w3) of
                            (err, jobInfo4, db4) \<Rightarrow>
                              let w4 = \<lparr>world_Db = db4,
                                        world_calls = world_calls w3 @ [CallStartJob jobInfo3]\<rparr>
                              in case JobInfo_Job jobInfo4 of
                                   None \<Rightarrow> Panic nilDereference
                                 | Some j4 \<Rightarrow>
                                     (case err of
                                        Some e \<Rightarrow> Return (Some e, w4)
                                      | None \<Rightarrow>
                                          let resp = SyncSubmitResponse (Job_Id j4)
                                                       (Job_Status j4) (Job_Result j4)
                                          in Return (stream_SendAndClose s resp,
                                                     w4\<lparr>world_calls :=
                                                          world_calls w4
                                                            @ [CallSendAndClose resp]\<rparr>)))))))"

text \<open>
  \<^verbatim>\<open>AsyncSubmit\<close>, lines 29 to 58. The goroutine of lines 49 to 51 runs
  \<^verbatim>\<open>StartJob\<close> on the same aggregate and drops its error. When it runs is up to the
  scheduler; the model takes the two orders in which the goroutine's call and the
  handler's last statement can follow each other, each as a whole. With
  \<open>ResponseFirst\<close> the world returned is the one left once the goroutine has run too.
\<close>

datatype schedule = GoroutineFirst | ResponseFirst

definition AsyncSubmit ::
  "'db env \<Rightarrow> schedule \<Rightarrow> 'db world \<Rightarrow> AsyncSubmitRequest recv list
     \<Rightarrow> (error option \<times> 'db world) outcome"
where
  "AsyncSubmit s sched w stream =
     (case receiveAsyncJobStream stream of
        Panic p \<Rightarrow> Panic p
      | Return (jobInfo, Some err) \<Rightarrow> Return (Some err, w)
      | Return (jobInfo, None) \<Rightarrow>
          (case persistence s w jobInfo of
             Panic p \<Rightarrow> Panic p
           | Return (Some err, jobInfo2, w2) \<Rightarrow> Return (Some err, w2)
           | Return (None, jobInfo2, w2) \<Rightarrow>
               (case reloadJobInfo s w2 (Some jobInfo2) of
                  Panic p \<Rightarrow> Panic p
                | Return (jobInfo3, Some err, w3) \<Rightarrow> Return (Some err, w3)
                | Return (jobInfo3, None, w3) \<Rightarrow>
                    (case sched of
                       GoroutineFirst \<Rightarrow>
                         (case appCtx_StartJob s jobInfo3 (world_Db w3) of
                            (ignored, jobInfo4, db4) \<Rightarrow>
                              (case JobInfo_Job jobInfo4 of
                                 None \<Rightarrow> Panic nilDereference
                               | Some j4 \<Rightarrow>
                                   let resp = AsyncSubmitResponse (Job_Id j4)
                                   in Return (stream_SendAndClose s resp,
                                              \<lparr>world_Db = db4,
                                               world_calls = world_calls w3
                                                 @ [CallStartJob jobInfo3,
                                                    CallSendAndClose resp]\<rparr>)))
                     | ResponseFirst \<Rightarrow>
                         (case JobInfo_Job jobInfo3 of
                            None \<Rightarrow> Panic nilDereference
                          | Some j3 \<Rightarrow>
                              let resp = AsyncSubmitResponse (Job_Id j3)
                              in case appCtx_StartJob s jobInfo3 (world_Db w3) of
                                   (ignored, jobInfo4, db4) \<Rightarrow>
                                     Return (stream_SendAndClose s resp,
                                             \<lparr>world_Db = db4,
                                              world_calls = world_calls w3
                                                @ [CallSendAndClose resp,
                                                   CallStartJob jobInfo3]\<rparr>))))))"

text \<open>\<^verbatim>\<open>AsyncNotify\<close>, lines 61 to 63: the body is a single \<^verbatim>\<open>panic\<close>.\<close>

definition AsyncNotify :: "'ctx \<Rightarrow> 'req \<Rightarrow> (unit \<times> error option) outcome" where
  "AsyncNotify ctx req = Panic ''not implemented''"

subsection \<open>Definitions used to state the properties\<close>

text \<open>
  The task list the loop appends for a list of payloads, from a given shard counter on:
  one task per payload, the counter going up by one (with \<^verbatim>\<open>int32\<close> wrap-around).
\<close>

fun tasksFrom :: "string \<Rightarrow> string \<Rightarrow> int32 \<Rightarrow> string list \<Rightarrow> Task list" where
  "tasksFrom name plugin sharding [] = []"
| "tasksFrom name plugin sharding (d # ds) =
     newTask sharding name d plugin # tasksFrom name plugin (sharding + 1) ds"

text \<open>
  An assembler result is a successful assembly of the payloads \<open>inputs\<close> under the job
  name \<open>jobName\<close> and the plugin \<open>plugin\<close>: no error, the size field reads
  \<open>length inputs\<close>, and the tasks are, in order, those of shard index \<open>0\<close>,
  \<open>1\<close>, ..., each named \<^verbatim>\<open><jobName>-<index>\<close>, with its payload and the
  plugin. Integers are read as signed values.
\<close>

definition assembledAs ::
  "string \<Rightarrow> string \<Rightarrow> string list \<Rightarrow> (JobInfo \<times> error option) outcome \<Rightarrow> bool"
where
  "assembledAs jobName plugin inputs r =
     (case r of
        Return (jobInfo, None) \<Rightarrow>
          (case JobInfo_Job jobInfo of
             None \<Rightarrow> False
           | Some j \<Rightarrow>
               sint (Job_Size j) = int (length inputs) \<and>
               map (\<lambda>t. (sint (Task_Sharding t), Task_Name t, Task_Input t, Task_Plugin t))
                   (JobInfo_TaskList jobInfo)
                 = map (\<lambda>i. (int i, jobName @ ''-'' @ formatInt (int i), inputs ! i, plugin))
                       [0..<length inputs])
      | _ \<Rightarrow> False)"

text \<open>The job, the task list and the signed size of a successful assembly.\<close>

definition assembledJob :: "(JobInfo \<times> error option) outcome \<Rightarrow> Job option" where
  "assembledJob r = (case r of Return (jobInfo, None) \<Rightarrow> JobInfo_Job jobInfo | _ \<Rightarrow> None)"

definition assembledTasks :: "(JobInfo \<times> error option) outcome \<Rightarrow> Task list" where
  "assembledTasks r = (case r of Return (jobInfo, None) \<Rightarrow> JobInfo_TaskList jobInfo | _ \<Rightarrow> [])"

definition assembledSize :: "(JobInfo \<times> error option) outcome \<Rightarrow> int option" where
  "assembledSize r = map_option (\<lambda>j. sint (Job_Size j)) (assembledJob r)"

text \<open>
  An asynchronous chunk seen as a synchronous one (the common fields), and a job record
  with the three fields only the asynchronous assembler writes put back to zero.
\<close>

definition toSync :: "AsyncSubmitRequest \<Rightarrow> SyncSubmitRequest" where
  "toSync r =
     \<lparr>SyncReq_Name = AsyncReq_Name r, SyncReq_PluginSet = AsyncReq_PluginSet r,
      SyncReq_Label = AsyncReq_Label r, SyncReq_Source = AsyncReq_Source r,
      SyncReq_TaskExceptionOperation = AsyncReq_TaskExceptionOperation r,
      SyncReq_Data = AsyncReq_Data r\<rparr>"

definition syncView :: "Job \<Rightarrow> Job" where
  "syncView j = j\<lparr>Job_Type := [], Job_IsAsync := 0, Job_IsNotify := 0\<rparr>"

definition syncViewInfo :: "JobInfo \<Rightarrow> JobInfo" where
  "syncViewInfo jobInfo = jobInfo\<lparr>JobInfo_Job := map_option syncView (JobInfo_Job jobInfo)\<rparr>"

text \<open>Example chunks: the job \<^verbatim>\<open>job1\<close> with the pipeline \<^verbatim>\<open>p1, p2\<close>.\<close>

definition exampleSyncChunk :: "string \<Rightarrow> SyncSubmitRequest" where
  "exampleSyncChunk d =
     \<lparr>SyncReq_Name = ''job1'', SyncReq_PluginSet = [''p1'', ''p2''], SyncReq_Label = ''l'',
      SyncReq_Source = ''s'', SyncReq_TaskExceptionOperation = 0, SyncReq_Data = d\<rparr>"

definition exampleAsyncChunk :: "string \<Rightarrow> AsyncSubmitRequest" where
  "exampleAsyncChunk d =
     \<lparr>AsyncReq_Name = ''job1'', AsyncReq_Type = ''t'', AsyncReq_PluginSet = [''p1'', ''p2''],
      AsyncReq_Label = ''l'', AsyncReq_Source = ''s'', AsyncReq_TaskExceptionOperation = 0,
      AsyncReq_Data = d, AsyncReq_IsNotify = True\<rparr>"

text \<open>Chunks that differ from the examples in every envelope field.\<close>

definition otherSyncChunk :: "string \<Rightarrow> SyncSubmitRequest" where
  "otherSyncChunk d =
     \<lparr>SyncReq_Name = ''other'', SyncReq_PluginSet = [''q''], SyncReq_Label = ''x'',
      SyncReq_Source = ''y'', SyncReq_TaskExceptionOperation = 1, SyncReq_Data = d\<rparr>"

definition otherAsyncChunk :: "string \<Rightarrow> AsyncSubmitRequest" where
  "otherAsyncChunk d =
     \<lparr>AsyncReq_Name = ''other'', AsyncReq_Type = ''u'', AsyncReq_PluginSet = [''q''],
      AsyncReq_Label = ''x'', AsyncReq_Source = ''y'', AsyncReq_TaskExceptionOperation = 1,
      AsyncReq_Data = d, AsyncReq_IsNotify = False\<rparr>"

text \<open>What the caller of a handler observes: the error returned and the responses sent.\<close>

definition observed ::
  "(error option \<times> 'db world) outcome \<Rightarrow> (error option \<times> response list) option"
where
  "observed r =
     (case r of Return (err, w) \<Rightarrow> Some (err, responses (world_calls w)) | Panic p \<Rightarrow> None)"

subsection \<open>An in-memory storage and engine for the examples\<close>

text \<open>
  A storage that keeps the saved rows in two lists and numbers the jobs from 1, an engine
  that marks the job done (status 2) with the result \<^verbatim>\<open>R\<close>, and variants of both
  that do their work and then report an error.
\<close>

record memDb =
  mem_jobs :: "Job list"
  mem_tasks :: "Task list"

definition memSave :: "memDb \<Rightarrow> Job option \<Rightarrow> error option \<times> (Job \<Rightarrow> Job) \<times> memDb" where
  "memSave db job =
     (let upd = (\<lambda>j. j\<lparr>Job_Id := word_of_nat (length (mem_jobs db)) + 1\<rparr>)
      in (None, upd,
          db\<lparr>mem_jobs := mem_jobs db @ (case job of None \<Rightarrow> [] | Some j \<Rightarrow> [upd j])\<rparr>))"

definition memBatchSave :: "memDb \<Rightarrow> Task list \<Rightarrow> error option \<times> Task list \<times> memDb" where
  "memBatchSave db tasks = (None, tasks, db\<lparr>mem_tasks := mem_tasks db @ tasks\<rparr>)"

definition failingBatchSave :: "memDb \<Rightarrow> Task list \<Rightarrow> error option \<times> Task list \<times> memDb" where
  "failingBatchSave db tasks =
     (Some (ExternalErr ''disk full''), tasks, db\<lparr>mem_tasks := mem_tasks db @ tasks\<rparr>)"

definition memFindById :: "memDb \<Rightarrow> int64 \<Rightarrow> Job option \<times> error option" where
  "memFindById db i = (find (\<lambda>j. Job_Id j = i) (mem_jobs db), None)"

definition failingFindById :: "memDb \<Rightarrow> int64 \<Rightarrow> Job option \<times> error option" where
  "failingFindById db i = (None, Some (ExternalErr ''timeout''))"

definition memList :: "memDb \<Rightarrow> int64 \<Rightarrow> Task list \<times> error option" where
  "memList db i = (filter (\<lambda>t. Task_JobId t = i) (mem_tasks db), None)"

definition doneStartJob :: "JobInfo \<Rightarrow> memDb \<Rightarrow> error option \<times> JobInfo \<times> memDb" where
  "doneStartJob jobInfo db =
     (None,
      jobInfo\<lparr>JobInfo_Job :=
                map_option (\<lambda>j. j\<lparr>Job_Status := 2, Job_Result := ''R''\<rparr>) (JobInfo_Job jobInfo)\<rparr>,
      db)"

definition failingStartJob :: "JobInfo \<Rightarrow> memDb \<Rightarrow> error option \<times> JobInfo \<times> memDb" where
  "failingStartJob jobInfo db = (Some (ExternalErr ''engine down''), snd (doneStartJob jobInfo db))"

text \<open>An engine that reports an error and leaves the aggregate without its job.\<close>

definition droppingStartJob :: "JobInfo \<Rightarrow> memDb \<Rightarrow> error option \<times> JobInfo \<times> memDb" where
  "droppingStartJob jobInfo db =
     (Some (ExternalErr ''engine down''), jobInfo\<lparr>JobInfo_Job := None\<rparr>, db)"

definition memEnv :: "memDb env" where
  "memEnv =
     \<lparr>jobRepo_Save = memSave, taskRepo_BatchSave = memBatchSave,
      jobRepo_FindById = memFindById, taskRepo_List = memList,
      appCtx_StartJob = doneStartJob, stream_SendAndClose = (\<lambda>r. None)\<rparr>"

definition emptyWorld :: "memDb world" where
  "emptyWorld = \<lparr>world_Db = \<lparr>mem_jobs = [], mem_tasks = []\<rparr>, world_calls = []\<rparr>"

text \<open>A world in which the example job and its two tasks are stored.\<close>

definition storedJob :: Job where
  "storedJob = (syncJob (exampleSyncChunk ''a''))\<lparr>Job_Id := 1, Job_Size := 2\<rparr>"

definition storedTasks :: "Task list" where
  "storedTasks =
     [(newTask 0 ''job1'' ''a'' ''p1'')\<lparr>Task_JobId := 1\<rparr>,
      (newTask 1 ''job1'' ''b'' ''p1'')\<lparr>Task_JobId := 1\<rparr>]"

definition storedWorld :: "memDb world" where
  "storedWorld =
     \<lparr>world_Db = \<lparr>mem_jobs = [storedJob], mem_tasks = storedTasks\<rparr>, world_calls = []\<rparr>"

section \<open>Properties\<close>

subsection \<open>The receive loops on well-formed streams\<close>

lemma JobInfo_Job_same: "JobInfo_Job ji = Some j \<Longrightarrow> ji\<lparr>JobInfo_Job := Some j\<rparr> = ji"
  by (cases ji) simp

lemma length_tasksFrom: "length (tasksFrom name plugin sh ds) = length ds"
  by (induction ds arbitrary: sh) auto

lemma nth_tasksFrom:
  "i < length ds \<Longrightarrow>
     tasksFrom name plugin sh ds ! i = newTask (sh + word_of_nat i) name (ds ! i) plugin"
proof (induction ds arbitrary: sh i)
  case Nil
  then show ?case by simp
next
  case (Cons d ds)
  show ?case
  proof (cases i)
    case 0
    then show ?thesis by simp
  next
    case (Suc k)
    with Cons.prems have "k < length ds" by simp
    from Cons.IH [OF this, of "sh + 1"] Suc show ?thesis
      by (simp add: ac_simps)
  qed
qed

text \<open>Once the job pointer is set, every chunk with a plugin only appends its task.\<close>

lemma syncLoop_run:
  assumes "JobInfo_Job ji = Some j" and "\<forall>c\<in>set cs. SyncReq_PluginSet c \<noteq> []"
  shows "syncLoop (map Chunk cs) ji fp sh =
           Inr (ji\<lparr>JobInfo_TaskList :=
                  JobInfo_TaskList ji @ tasksFrom (Job_Name j) fp sh (map SyncReq_Data cs)\<rparr>)"
  using assms
proof (induction cs arbitrary: ji sh)
  case Nil
  then show ?case by simp
next
  case (Cons c cs)
  let ?ji = "AppendSafeTask ji (newTask sh (Job_Name j) (SyncReq_Data c) fp)"
  have job: "JobInfo_Job ?ji = Some j"
    using Cons.prems(1) by (simp add: AppendSafeTask_def)
  have rest: "\<forall>c\<in>set cs. SyncReq_PluginSet c \<noteq> []"
    using Cons.prems(2) by simp
  have step: "syncLoop (map Chunk (c # cs)) ji fp sh = syncLoop (map Chunk cs) ?ji fp (sh + 1)"
    using Cons.prems by (simp add: Let_def JobInfo_Job_same)
  show ?case
    unfolding step Cons.IH [OF job rest]
    by (simp add: AppendSafeTask_def)
qed

lemma asyncLoop_run:
  assumes "JobInfo_Job ji = Some j" and "\<forall>c\<in>set cs. AsyncReq_PluginSet c \<noteq> []"
  shows "asyncLoop (map Chunk cs) ji fp sh =
           Inr (ji\<lparr>JobInfo_TaskList :=
                  JobInfo_TaskList ji @ tasksFrom (Job_Name j) fp sh (map AsyncReq_Data cs)\<rparr>)"
  using assms
proof (induction cs arbitrary: ji sh)
  case Nil
  then show ?case by simp
next
  case (Cons c cs)
  let ?ji = "AppendSafeTask ji (newTask sh (Job_Name j) (AsyncReq_Data c) fp)"
  have job: "JobInfo_Job ?ji = Some j"
    using Cons.prems(1) by (simp add: AppendSafeTask_def)
  have rest: "\<forall>c\<in>set cs. AsyncReq_PluginSet c \<noteq> []"
    using Cons.prems(2) by simp
  have step: "asyncLoop (map Chunk (c # cs)) ji fp sh = asyncLoop (map Chunk cs) ?ji fp (sh + 1)"
    using Cons.prems by (simp add: Let_def JobInfo_Job_same)
  show ?case
    unfolding step Cons.IH [OF job rest]
    by (simp add: AppendSafeTask_def)
qed

text \<open>The first chunk sets the job pointer and \<^verbatim>\<open>firstPlugin\<close>.\<close>

lemma syncLoop_first:
  assumes "SyncReq_PluginSet c \<noteq> []"
  shows "syncLoop (Chunk c # st) \<lparr>JobInfo_Job = None, JobInfo_TaskList = []\<rparr> fp sh =
         syncLoop st
           \<lparr>JobInfo_Job = Some (syncJob c),
            JobInfo_TaskList =
              [newTask sh (SyncReq_Name c) (SyncReq_Data c) (hd (SyncReq_PluginSet c))]\<rparr>
           (hd (SyncReq_PluginSet c)) (sh + 1)"
  using assms by (simp add: Let_def AppendSafeTask_def hd_conv_nth syncJob_def)

lemma Job_Name_asyncJob: "Job_Name (asyncJob c) = AsyncReq_Name c"
  by (simp add: asyncJob_def Let_def)

lemma asyncLoop_first:
  assumes "AsyncReq_PluginSet c \<noteq> []"
  shows "asyncLoop (Chunk c # st) \<lparr>JobInfo_Job = None, JobInfo_TaskList = []\<rparr> fp sh =
         asyncLoop st
           \<lparr>JobInfo_Job = Some (asyncJob c),
            JobInfo_TaskList =
              [newTask sh (AsyncReq_Name c) (AsyncReq_Data c) (hd (AsyncReq_PluginSet c))]\<rparr>
           (hd (AsyncReq_PluginSet c)) (sh + 1)"
  using assms by (simp add: Let_def AppendSafeTask_def hd_conv_nth Job_Name_asyncJob)

text \<open>The whole assembler on a non-empty list of chunks that all carry a plugin.\<close>

lemma receiveSync_run:
  assumes "\<forall>c\<in>set (c0 # cs). SyncReq_PluginSet c \<noteq> []"
  shows "receiveSyncJobStream (map Chunk (c0 # cs)) =
           Return (\<lparr>JobInfo_Job =
                      Some ((syncJob c0)\<lparr>Job_Size := word_of_nat (Suc (length cs))\<rparr>),
                    JobInfo_TaskList =
                      tasksFrom (SyncReq_Name c0) (hd (SyncReq_PluginSet c0)) 0
                        (map SyncReq_Data (c0 # cs))\<rparr>, None)"
proof -
  have c0: "SyncReq_PluginSet c0 \<noteq> []" and cs: "\<forall>c\<in>set cs. SyncReq_PluginSet c \<noteq> []"
    using assms by simp_all
  have name: "Job_Name (syncJob c0) = SyncReq_Name c0"
    by (simp add: syncJob_def)
  show ?thesis
    unfolding receiveSyncJobStream_def list.map syncLoop_first [OF c0]
    by (simp add: syncLoop_run [OF _ cs] name setSize_def length_tasksFrom)
qed

lemma receiveAsync_run:
  assumes "\<forall>c\<in>set (c0 # cs). AsyncReq_PluginSet c \<noteq> []"
  shows "receiveAsyncJobStream (map Chunk (c0 # cs)) =
           Return (\<lparr>JobInfo_Job =
                      Some ((asyncJob c0)\<lparr>Job_Size := word_of_nat (Suc (length cs))\<rparr>),
                    JobInfo_TaskList =
                      tasksFrom (AsyncReq_Name c0) (hd (AsyncReq_PluginSet c0)) 0
                        (map AsyncReq_Data (c0 # cs))\<rparr>, None)"
proof -
  have c0: "AsyncReq_PluginSet c0 \<noteq> []" and cs: "\<forall>c\<in>set cs. AsyncReq_PluginSet c \<noteq> []"
    using assms by simp_all
  show ?thesis
    unfolding receiveAsyncJobStream_def list.map asyncLoop_first [OF c0]
    by (simp add: asyncLoop_run [OF _ cs] Job_Name_asyncJob setSize_def length_tasksFrom)
qed

subsection \<open>Shard indices, names and size\<close>

lemma sint_int32_of_nat:
  assumes "n < 2 ^ 31"
  shows "sint (word_of_nat n :: int32) = int n"
proof -
  have "int n < 2 ^ 31"
    using assms by (metis of_nat_less_iff of_nat_numeral of_nat_power)
  then have "signed_take_bit 31 (int n) = int n"
    by (intro signed_take_bit_int_eq_self) simp_all
  then show ?thesis
    by (simp add: signed_of_nat)
qed

lemma tasksFrom_view:
  assumes "length ds < 2 ^ 31"
  shows "map (\<lambda>t. (sint (Task_Sharding t), Task_Name t, Task_Input t, Task_Plugin t))
             (tasksFrom name plugin 0 ds)
         = map (\<lambda>i. (int i, name @ ''-'' @ formatInt (int i), ds ! i, plugin)) [0..<length ds]"
    (is "?l = ?r")
proof (rule nth_equalityI)
  show "length ?l = length ?r"
    by (simp add: length_tasksFrom)
next
  fix i
  assume "i < length ?l"
  then have i: "i < length ds"
    by (simp add: length_tasksFrom)
  with assms have "i < 2 ^ 31" by simp
  then have "sint (word_of_nat i :: int32) = int i"
    by (rule sint_int32_of_nat)
  with i show "?l ! i = ?r ! i"
    by (simp add: length_tasksFrom nth_tasksFrom newTask_def Sprintf_def)
qed

lemma sync_assembledAs:
  assumes "\<forall>c\<in>set (c0 # cs). SyncReq_PluginSet c \<noteq> []" and "length (c0 # cs) < 2 ^ 31"
  shows "assembledAs (SyncReq_Name c0) (hd (SyncReq_PluginSet c0)) (map SyncReq_Data (c0 # cs))
           (receiveSyncJobStream (map Chunk (c0 # cs)))"
proof -
  have n: "length (map SyncReq_Data (c0 # cs)) < 2 ^ 31"
    using assms(2) by simp
  have "sint (word_of_nat (Suc (length cs)) :: int32) = int (Suc (length cs))"
    using assms(2) by (intro sint_int32_of_nat) simp
  then show ?thesis
    unfolding receiveSync_run [OF assms(1)] assembledAs_def
    using tasksFrom_view [OF n] by simp
qed

lemma async_assembledAs:
  assumes "\<forall>c\<in>set (c0 # cs). AsyncReq_PluginSet c \<noteq> []" and "length (c0 # cs) < 2 ^ 31"
  shows "assembledAs (AsyncReq_Name c0) (hd (AsyncReq_PluginSet c0))
           (map AsyncReq_Data (c0 # cs)) (receiveAsyncJobStream (map Chunk (c0 # cs)))"
proof -
  have n: "length (map AsyncReq_Data (c0 # cs)) < 2 ^ 31"
    using assms(2) by simp
  have "sint (word_of_nat (Suc (length cs)) :: int32) = int (Suc (length cs))"
    using assms(2) by (intro sint_int32_of_nat) simp
  then show ?thesis
    unfolding receiveAsync_run [OF assms(1)] assembledAs_def
    using tasksFrom_view [OF n] by simp
qed

text \<open>
  Claim C1, as amended. For every non-empty sequence of at most \<open>2^31 - 1\<close> chunks that
  all carry a plugin, both assemblers return without error; the task list has one task
  per chunk, with shard indices \<open>0, 1, ..., n - 1\<close> in arrival order; task \<open>i\<close> is named
  \<^verbatim>\<open><jobName>-<i>\<close> after the first chunk's name, its input is the payload of chunk
  \<open>i\<close>, its plugin is the first plugin of the first chunk; and the size field of the job
  is \<open>n\<close>. The bound is that of the \<^verbatim>\<open>int32\<close> shard counter and size field.
\<close>

theorem assembler_tasks:
  assumes "\<forall>c\<in>set (c0 # cs). SyncReq_PluginSet c \<noteq> []" and "length (c0 # cs) < 2 ^ 31"
    and "\<forall>a\<in>set (a0 # ds). AsyncReq_PluginSet a \<noteq> []" and "length (a0 # ds) < 2 ^ 31"
  shows "assembledAs (SyncReq_Name c0) (hd (SyncReq_PluginSet c0)) (map SyncReq_Data (c0 # cs))
           (receiveSyncJobStream (map Chunk (c0 # cs))) \<and>
         assembledAs (AsyncReq_Name a0) (hd (AsyncReq_PluginSet a0))
           (map AsyncReq_Data (a0 # ds)) (receiveAsyncJobStream (map Chunk (a0 # ds)))"
  using sync_assembledAs [OF assms(1,2)] async_assembledAs [OF assms(3,4)] by simp

text \<open>
  The scenario of three chunks named \<^verbatim>\<open>job1\<close> with the pipeline \<^verbatim>\<open>p1, p2\<close>
  and the payloads \<^verbatim>\<open>a\<close>, \<^verbatim>\<open>b\<close>, \<^verbatim>\<open>c\<close>.
\<close>

theorem assembler_tasks_witness:
  "assembledAs ''job1'' ''p1'' [''a'', ''b'', ''c'']
     (receiveSyncJobStream
        [Chunk (exampleSyncChunk ''a''), Chunk (exampleSyncChunk ''b''),
         Chunk (exampleSyncChunk ''c'')]) \<and>
   assembledAs ''job1'' ''p1'' [''a'', ''b'', ''c'']
     (receiveAsyncJobStream
        [Chunk (exampleAsyncChunk ''a''), Chunk (exampleAsyncChunk ''b''),
         Chunk (exampleAsyncChunk ''c'')])"
  using assembler_tasks
          [of "exampleSyncChunk ''a''" "[exampleSyncChunk ''b'', exampleSyncChunk ''c'']"
              "exampleAsyncChunk ''a''" "[exampleAsyncChunk ''b'', exampleAsyncChunk ''c'']"]
  by (simp add: exampleSyncChunk_def exampleAsyncChunk_def)

text \<open>
  Claim C1 as stated, for every length, fails at \<open>2^31\<close> chunks: the length does not
  fit the \<^verbatim>\<open>int32\<close> size field, which then reads \<open>- 2^31\<close>.
\<close>

theorem assembler_size_overflow:
  "assembledSize
     (receiveSyncJobStream (map Chunk (replicate 2147483648 (exampleSyncChunk ''a''))))
     = Some (- 2147483648) \<and>
   \<not> assembledAs ''job1'' ''p1'' (replicate 2147483648 ''a'')
       (receiveSyncJobStream (map Chunk (replicate 2147483648 (exampleSyncChunk ''a''))))"
proof -
  have "replicate 2147483648 (exampleSyncChunk ''a'') =
          exampleSyncChunk ''a'' # replicate 2147483647 (exampleSyncChunk ''a'')"
    by (simp add: replicate_Suc [symmetric] del: replicate_Suc)
  moreover have "\<forall>c\<in>set (exampleSyncChunk ''a'' # replicate 2147483647 (exampleSyncChunk ''a'')).
                   SyncReq_PluginSet c \<noteq> []"
    by (simp add: exampleSyncChunk_def)
  ultimately show ?thesis
    using receiveSync_run
            [of "exampleSyncChunk ''a''" "replicate 2147483647 (exampleSyncChunk ''a'')"]
    by (simp add: assembledAs_def assembledSize_def assembledJob_def)
qed

subsection \<open>The empty stream\<close>

text \<open>
  Claim C9. On the empty stream the loop ends at once with the job pointer still nil, and
  the assignment of the size (lines 169 and 215) dereferences it: both assemblers panic
  instead of returning an aggregate with a nil job, and the two handlers with them.
\<close>

theorem empty_stream_panics:
  "receiveSyncJobStream [] = Panic nilDereference \<and>
   receiveAsyncJobStream [] = Panic nilDereference \<and>
   SyncSubmit s w [] = Panic nilDereference \<and>
   AsyncSubmit s sched w [] = Panic nilDereference"
  by (simp add: receiveSyncJobStream_def receiveAsyncJobStream_def setSize_def
        SyncSubmit_def AsyncSubmit_def)

subsection \<open>The notification entry point\<close>

text \<open>
  Claim C8. Whatever the request, \<^verbatim>\<open>AsyncNotify\<close> ends in the panic
  \<^verbatim>\<open>not implemented\<close>; it never returns a response.
\<close>

theorem AsyncNotify_unimplemented:
  "AsyncNotify ctx req = Panic ''not implemented'' \<and>
   \<not> (\<exists>result. AsyncNotify ctx req = Return result)"
  by (simp add: AsyncNotify_def)

subsection \<open>Streams the loops run through to the end\<close>

lemma syncLoop_Inr_chunks:
  "syncLoop st ji fp sh = Inr ji' \<Longrightarrow>
     \<exists>cs. st = map Chunk cs \<and> (\<forall>c\<in>set cs. SyncReq_PluginSet c \<noteq> [])"
proof (induction st arbitrary: ji fp sh)
  case Nil
  then show ?case by simp
next
  case (Cons x st)
  show ?case
  proof (cases x)
    case (Chunk c)
    with Cons.prems have ne: "SyncReq_PluginSet c \<noteq> []"
      by (auto split: if_splits)
    with Cons.prems Chunk obtain ji1 fp1 where "syncLoop st ji1 fp1 (sh + 1) = Inr ji'"
      by (auto simp: Let_def)
    from Cons.IH [OF this] obtain cs
      where "st = map Chunk cs" "\<forall>c\<in>set cs. SyncReq_PluginSet c \<noteq> []"
      by blast
    with ne Chunk
    have "x # st = map Chunk (c # cs) \<and> (\<forall>c\<in>set (c # cs). SyncReq_PluginSet c \<noteq> [])"
      by simp
    then show ?thesis by (rule exI [of _ "c # cs"])
  next
    case (RecvErr e)
    with Cons.prems show ?thesis by simp
  qed
qed

lemma asyncLoop_Inr_chunks:
  "asyncLoop st ji fp sh = Inr ji' \<Longrightarrow>
     \<exists>cs. st = map Chunk cs \<and> (\<forall>c\<in>set cs. AsyncReq_PluginSet c \<noteq> [])"
proof (induction st arbitrary: ji fp sh)
  case Nil
  then show ?case by simp
next
  case (Cons x st)
  show ?case
  proof (cases x)
    case (Chunk c)
    with Cons.prems have ne: "AsyncReq_PluginSet c \<noteq> []"
      by (auto split: if_splits)
    with Cons.prems Chunk obtain ji1 fp1 where "asyncLoop st ji1 fp1 (sh + 1) = Inr ji'"
      by (auto simp: Let_def)
    from Cons.IH [OF this] obtain cs
      where "st = map Chunk cs" "\<forall>c\<in>set cs. AsyncReq_PluginSet c \<noteq> []"
      by blast
    with ne Chunk
    have "x # st = map Chunk (c # cs) \<and> (\<forall>c\<in>set (c # cs). AsyncReq_PluginSet c \<noteq> [])"
      by simp
    then show ?thesis by (rule exI [of _ "c # cs"])
  next
    case (RecvErr e)
    with Cons.prems show ?thesis by simp
  qed
qed

lemma receiveSync_success:
  assumes "receiveSyncJobStream st = Return (ji, None)"
  shows "\<exists>c0 cs. st = map Chunk (c0 # cs) \<and> (\<forall>c\<in>set (c0 # cs). SyncReq_PluginSet c \<noteq> [])"
proof -
  from assms obtain ji'
    where "syncLoop st \<lparr>JobInfo_Job = None, JobInfo_TaskList = []\<rparr> [] 0 = Inr ji'"
    by (auto simp: receiveSyncJobStream_def split: sum.splits)
  from syncLoop_Inr_chunks [OF this] obtain cs
    where cs: "st = map Chunk cs" "\<forall>c\<in>set cs. SyncReq_PluginSet c \<noteq> []"
    by blast
  have "cs \<noteq> []"
    using assms cs(1) by (auto simp: receiveSyncJobStream_def setSize_def)
  then obtain c0 cs' where "cs = c0 # cs'"
    by (cases cs) auto
  with cs show ?thesis by blast
qed

lemma receiveAsync_success:
  assumes "receiveAsyncJobStream st = Return (ji, None)"
  shows "\<exists>c0 cs. st = map Chunk (c0 # cs) \<and> (\<forall>c\<in>set (c0 # cs). AsyncReq_PluginSet c \<noteq> [])"
proof -
  from assms obtain ji'
    where "asyncLoop st \<lparr>JobInfo_Job = None, JobInfo_TaskList = []\<rparr> [] 0 = Inr ji'"
    by (auto simp: receiveAsyncJobStream_def split: sum.splits)
  from asyncLoop_Inr_chunks [OF this] obtain cs
    where cs: "st = map Chunk cs" "\<forall>c\<in>set cs. AsyncReq_PluginSet c \<noteq> []"
    by blast
  have "cs \<noteq> []"
    using assms cs(1) by (auto simp: receiveAsyncJobStream_def setSize_def)
  then obtain c0 cs' where "cs = c0 # cs'"
    by (cases cs) auto
  with cs show ?thesis by blast
qed

subsection \<open>The two assemblers side by side\<close>

lemma loops_in_step:
  "syncLoop (map (map_recv toSync) st) (syncViewInfo ji) fp sh =
     map_sum (map_prod syncViewInfo id) syncViewInfo (asyncLoop st ji fp sh)"
proof (induction st arbitrary: ji fp sh)
  case Nil
  then show ?case by simp
next
  case (Cons x st)
  show ?case
  proof (cases x)
    case (RecvErr e)
    then show ?thesis by simp
  next
    case (Chunk c)
    show ?thesis
    proof (cases "AsyncReq_PluginSet c = []")
      case True
      with Chunk show ?thesis by (simp add: toSync_def)
    next
      case False
      show ?thesis
      proof (cases "JobInfo_Job ji")
        case None
        let ?a = "AppendSafeTask (ji\<lparr>JobInfo_Job := Some (asyncJob c)\<rparr>)
                    (newTask sh (AsyncReq_Name c) (AsyncReq_Data c) (AsyncReq_PluginSet c ! 0))"
        have a: "asyncLoop (x # st) ji fp sh = asyncLoop st ?a (AsyncReq_PluginSet c ! 0) (sh + 1)"
          using Chunk False None by (simp add: Let_def Job_Name_asyncJob)
        have s: "syncLoop (map (map_recv toSync) (x # st)) (syncViewInfo ji) fp sh =
                 syncLoop (map (map_recv toSync) st) (syncViewInfo ?a)
                   (AsyncReq_PluginSet c ! 0) (sh + 1)"
          using Chunk False None
          by (cases ji)
             (simp add: Let_def syncViewInfo_def AppendSafeTask_def syncView_def asyncJob_def
                syncJob_def toSync_def)
        show ?thesis unfolding a s by (rule Cons.IH)
      next
        case (Some j)
        let ?a = "AppendSafeTask ji (newTask sh (Job_Name j) (AsyncReq_Data c) fp)"
        have a: "asyncLoop (x # st) ji fp sh = asyncLoop st ?a fp (sh + 1)"
          using Chunk False Some by (simp add: Let_def JobInfo_Job_same)
        have s: "syncLoop (map (map_recv toSync) (x # st)) (syncViewInfo ji) fp sh =
                 syncLoop (map (map_recv toSync) st) (syncViewInfo ?a) fp (sh + 1)"
          using Chunk False Some
          by (cases ji)
             (simp add: Let_def syncViewInfo_def AppendSafeTask_def syncView_def toSync_def)
        show ?thesis unfolding a s by (rule Cons.IH)
      qed
    qed
  qed
qed

lemma setSize_syncViewInfo:
  "setSize (syncViewInfo ji) = map_outcome (map_prod syncViewInfo id) (setSize ji)"
  by (cases "JobInfo_Job ji") (simp_all add: setSize_def syncViewInfo_def syncView_def)

lemma receive_in_step:
  "receiveSyncJobStream (map (map_recv toSync) st) =
     map_outcome (map_prod syncViewInfo id) (receiveAsyncJobStream st)"
proof -
  have init: "\<lparr>JobInfo_Job = None, JobInfo_TaskList = []\<rparr> =
                syncViewInfo \<lparr>JobInfo_Job = None, JobInfo_TaskList = []\<rparr>"
    by (simp add: syncViewInfo_def)
  show ?thesis
    unfolding receiveSyncJobStream_def receiveAsyncJobStream_def
    by (subst init, subst loops_in_step)
       (auto simp: setSize_syncViewInfo split: sum.splits)
qed

lemma async_fields:
  assumes "receiveAsyncJobStream st = Return (ji, None)"
  shows "\<exists>c rest j. st = Chunk c # rest \<and> JobInfo_Job ji = Some j \<and>
           Job_Type j = AsyncReq_Type c \<and> Job_IsAsync j = 1 \<and>
           Job_IsNotify j = (if AsyncReq_IsNotify c then 1 else 0)"
proof -
  from receiveAsync_success [OF assms] obtain c0 cs
    where st: "st = map Chunk (c0 # cs)" and ok: "\<forall>c\<in>set (c0 # cs). AsyncReq_PluginSet c \<noteq> []"
    by blast
  from assms receiveAsync_run [OF ok]
  have "JobInfo_Job ji = Some ((asyncJob c0)\<lparr>Job_Size := word_of_nat (Suc (length cs))\<rparr>)"
    unfolding st by auto
  then show ?thesis
    using st by (simp add: asyncJob_def Let_def)
qed

lemma sync_IsAsync:
  assumes "receiveSyncJobStream st = Return (ji, None)" and "JobInfo_Job ji = Some j"
  shows "j\<lparr>Job_IsAsync := 0\<rparr> = j"
proof -
  from receiveSync_success [OF assms(1)] obtain c0 cs
    where st: "st = map Chunk (c0 # cs)" and ok: "\<forall>c\<in>set (c0 # cs). SyncReq_PluginSet c \<noteq> []"
    by blast
  from assms receiveSync_run [OF ok]
  have "j = (syncJob c0)\<lparr>Job_Size := word_of_nat (Suc (length cs))\<rparr>"
    unfolding st by auto
  then show ?thesis
    by (simp add: syncJob_def)
qed

text \<open>
  Claim C10. On every stream the synchronous assembler (on the chunks' common fields) and
  the asynchronous assembler end alike: the same panic, or a return with the same error
  and with aggregates that have the same task list and the same job record up to the
  three fields \<^verbatim>\<open>Type\<close>, \<^verbatim>\<open>IsAsync\<close>, \<^verbatim>\<open>IsNotify\<close>, which are
  zero on the synchronous side. On success the asynchronous job has the type of the first
  chunk, \<^verbatim>\<open>IsAsync = 1\<close>, and \<^verbatim>\<open>IsNotify = 1\<close> exactly when the first chunk
  asks for notification; the assignment \<^verbatim>\<open>IsAsync = 0\<close> of \<^verbatim>\<open>SyncSubmit\<close>
  (line 72) writes the value the synchronous job already has.
\<close>

theorem assemblers_agree:
  "receiveSyncJobStream (map (map_recv toSync) stream) =
     map_outcome (map_prod syncViewInfo id) (receiveAsyncJobStream stream) \<and>
   (\<forall>jobInfo. receiveAsyncJobStream stream = Return (jobInfo, None) \<longrightarrow>
      (\<exists>c rest j. stream = Chunk c # rest \<and> JobInfo_Job jobInfo = Some j \<and>
         Job_Type j = AsyncReq_Type c \<and> Job_IsAsync j = 1 \<and>
         Job_IsNotify j = (if AsyncReq_IsNotify c then 1 else 0))) \<and>
   (\<forall>jobInfo j. receiveSyncJobStream (map (map_recv toSync) stream) = Return (jobInfo, None) \<and>
        JobInfo_Job jobInfo = Some j \<longrightarrow> j\<lparr>Job_IsAsync := 0\<rparr> = j)"
  using receive_in_step async_fields sync_IsAsync by blast

theorem assemblers_agree_witness:
  "receiveAsyncJobStream [Chunk (exampleAsyncChunk ''a''), Chunk (exampleAsyncChunk ''b'')] =
     Return (\<lparr>JobInfo_Job = Some \<lparr>Job_Id = 0, Job_Name = ''job1'', Job_Type = ''t'',
                 Job_PluginSet = ''p1,p2'', Job_Label = ''l'', Job_Source = ''s'',
                 Job_IsAsync = 1, Job_IsNotify = 1, Job_TaskExceptionOperation = 0,
                 Job_Size = 2, Job_Status = 0, Job_Result = []\<rparr>,
              JobInfo_TaskList = [newTask 0 ''job1'' ''a'' ''p1'', newTask 1 ''job1'' ''b'' ''p1'']\<rparr>, None) \<and>
   receiveSyncJobStream (map (map_recv toSync) [Chunk (exampleAsyncChunk ''a''), Chunk (exampleAsyncChunk ''b'')]) =
     Return (\<lparr>JobInfo_Job = Some \<lparr>Job_Id = 0, Job_Name = ''job1'', Job_Type = [],
                 Job_PluginSet = ''p1,p2'', Job_Label = ''l'', Job_Source = ''s'',
                 Job_IsAsync = 0, Job_IsNotify = 0, Job_TaskExceptionOperation = 0,
                 Job_Size = 2, Job_Status = 0, Job_Result = []\<rparr>,
              JobInfo_TaskList = [newTask 0 ''job1'' ''a'' ''p1'', newTask 1 ''job1'' ''b'' ''p1'']\<rparr>, None)"
  using assemblers_agree [of "[Chunk (exampleAsyncChunk ''a''), Chunk (exampleAsyncChunk ''b'')]"]
  by (simp add: receiveAsyncJobStream_def exampleAsyncChunk_def Let_def asyncJob_def
        AppendSafeTask_def setSize_def syncViewInfo_def syncView_def)

subsection \<open>Later chunks\<close>

lemma tasksFrom_inputs:
  "length cs' = length cs \<Longrightarrow>
     tasksFrom name plugin sh (map f cs') =
       map2 (\<lambda>t c. t\<lparr>Task_Input := f c\<rparr>) (tasksFrom name plugin sh (map f cs)) cs'"
proof (induction cs' cs arbitrary: sh rule: list_induct2)
  case Nil
  then show ?case by simp
next
  case (Cons c' cs' c cs)
  then show ?case by (simp add: newTask_def)
qed

lemma sync_later_chunks:
  assumes "\<forall>c\<in>set (c0 # cs). SyncReq_PluginSet c \<noteq> []"
    and "\<forall>c\<in>set cs'. SyncReq_PluginSet c \<noteq> []" and "length cs' = length cs"
  shows "assembledJob (receiveSyncJobStream (map Chunk (c0 # cs'))) =
           assembledJob (receiveSyncJobStream (map Chunk (c0 # cs))) \<and>
         assembledJob (receiveSyncJobStream (map Chunk (c0 # cs))) =
           Some ((syncJob c0)\<lparr>Job_Size := word_of_nat (Suc (length cs))\<rparr>) \<and>
         assembledTasks (receiveSyncJobStream (map Chunk (c0 # cs'))) =
           map2 (\<lambda>t c. t\<lparr>Task_Input := SyncReq_Data c\<rparr>)
             (assembledTasks (receiveSyncJobStream (map Chunk (c0 # cs)))) (c0 # cs')"
proof -
  have ok': "\<forall>c\<in>set (c0 # cs'). SyncReq_PluginSet c \<noteq> []"
    using assms(1,2) by simp
  have len: "length (c0 # cs') = length (c0 # cs)"
    using assms(3) by simp
  have j: "assembledJob (receiveSyncJobStream (map Chunk (c0 # cs))) =
             Some ((syncJob c0)\<lparr>Job_Size := word_of_nat (Suc (length cs))\<rparr>)"
    unfolding receiveSync_run [OF assms(1)] assembledJob_def by simp
  have j': "assembledJob (receiveSyncJobStream (map Chunk (c0 # cs'))) =
             Some ((syncJob c0)\<lparr>Job_Size := word_of_nat (Suc (length cs))\<rparr>)"
    unfolding receiveSync_run [OF ok'] assembledJob_def using assms(3) by simp
  have t: "assembledTasks (receiveSyncJobStream (map Chunk (c0 # cs))) =
             tasksFrom (SyncReq_Name c0) (hd (SyncReq_PluginSet c0)) 0 (map SyncReq_Data (c0 # cs))"
    unfolding receiveSync_run [OF assms(1)] assembledTasks_def by simp
  have t': "assembledTasks (receiveSyncJobStream (map Chunk (c0 # cs'))) =
             tasksFrom (SyncReq_Name c0) (hd (SyncReq_PluginSet c0)) 0 (map SyncReq_Data (c0 # cs'))"
    unfolding receiveSync_run [OF ok'] assembledTasks_def by simp
  show ?thesis
    unfolding j j' t t' tasksFrom_inputs [OF len] by simp
qed

lemma async_later_chunks:
  assumes "\<forall>c\<in>set (c0 # cs). AsyncReq_PluginSet c \<noteq> []"
    and "\<forall>c\<in>set cs'. AsyncReq_PluginSet c \<noteq> []" and "length cs' = length cs"
  shows "assembledJob (receiveAsyncJobStream (map Chunk (c0 # cs'))) =
           assembledJob (receiveAsyncJobStream (map Chunk (c0 # cs))) \<and>
         assembledJob (receiveAsyncJobStream (map Chunk (c0 # cs))) =
           Some ((asyncJob c0)\<lparr>Job_Size := word_of_nat (Suc (length cs))\<rparr>) \<and>
         assembledTasks (receiveAsyncJobStream (map Chunk (c0 # cs'))) =
           map2 (\<lambda>t c. t\<lparr>Task_Input := AsyncReq_Data c\<rparr>)
             (assembledTasks (receiveAsyncJobStream (map Chunk (c0 # cs)))) (c0 # cs')"
proof -
  have ok': "\<forall>c\<in>set (c0 # cs'). AsyncReq_PluginSet c \<noteq> []"
    using assms(1,2) by simp
  have len: "length (c0 # cs') = length (c0 # cs)"
    using assms(3) by simp
  have j: "assembledJob (receiveAsyncJobStream (map Chunk (c0 # cs))) =
             Some ((asyncJob c0)\<lparr>Job_Size := word_of_nat (Suc (length cs))\<rparr>)"
    unfolding receiveAsync_run [OF assms(1)] assembledJob_def by simp
  have j': "assembledJob (receiveAsyncJobStream (map Chunk (c0 # cs'))) =
             Some ((asyncJob c0)\<lparr>Job_Size := word_of_nat (Suc (length cs))\<rparr>)"
    unfolding receiveAsync_run [OF ok'] assembledJob_def using assms(3) by simp
  have t: "assembledTasks (receiveAsyncJobStream (map Chunk (c0 # cs))) =
             tasksFrom (AsyncReq_Name c0) (hd (AsyncReq_PluginSet c0)) 0 (map AsyncReq_Data (c0 # cs))"
    unfolding receiveAsync_run [OF assms(1)] assembledTasks_def by simp
  have t': "assembledTasks (receiveAsyncJobStream (map Chunk (c0 # cs'))) =
             tasksFrom (AsyncReq_Name c0) (hd (AsyncReq_PluginSet c0)) 0 (map AsyncReq_Data (c0 # cs'))"
    unfolding receiveAsync_run [OF ok'] assembledTasks_def by simp
  show ?thesis
    unfolding j j' t t' tasksFrom_inputs [OF len] by simp
qed

text \<open>
  Claim C7, as amended. Take a first chunk and two sequences of later chunks of the same
  length, every chunk carrying a plugin. Both assemblies succeed with the same job
  record, which is the record made from the first chunk with the size set to the number
  of chunks; the task lists differ at most in the tasks' inputs, task \<open>i\<close> having the
  payload of chunk \<open>i\<close>. So no envelope field of a later chunk reaches the job or the
  tasks, as long as its plugin pipeline is not empty.
\<close>

theorem later_chunks_ignored:
  assumes "\<forall>c\<in>set (c0 # cs). SyncReq_PluginSet c \<noteq> []"
    and "\<forall>c\<in>set cs'. SyncReq_PluginSet c \<noteq> []" and "length cs' = length cs"
    and "\<forall>a\<in>set (a0 # ds). AsyncReq_PluginSet a \<noteq> []"
    and "\<forall>a\<in>set ds'. AsyncReq_PluginSet a \<noteq> []" and "length ds' = length ds"
  shows "assembledJob (receiveSyncJobStream (map Chunk (c0 # cs'))) =
           assembledJob (receiveSyncJobStream (map Chunk (c0 # cs))) \<and>
         assembledJob (receiveSyncJobStream (map Chunk (c0 # cs))) =
           Some ((syncJob c0)\<lparr>Job_Size := word_of_nat (Suc (length cs))\<rparr>) \<and>
         assembledTasks (receiveSyncJobStream (map Chunk (c0 # cs'))) =
           map2 (\<lambda>t c. t\<lparr>Task_Input := SyncReq_Data c\<rparr>)
             (assembledTasks (receiveSyncJobStream (map Chunk (c0 # cs)))) (c0 # cs') \<and>
         assembledJob (receiveAsyncJobStream (map Chunk (a0 # ds'))) =
           assembledJob (receiveAsyncJobStream (map Chunk (a0 # ds))) \<and>
         assembledJob (receiveAsyncJobStream (map Chunk (a0 # ds))) =
           Some ((asyncJob a0)\<lparr>Job_Size := word_of_nat (Suc (length ds))\<rparr>) \<and>
         assembledTasks (receiveAsyncJobStream (map Chunk (a0 # ds'))) =
           map2 (\<lambda>t a. t\<lparr>Task_Input := AsyncReq_Data a\<rparr>)
             (assembledTasks (receiveAsyncJobStream (map Chunk (a0 # ds)))) (a0 # ds')"
  using sync_later_chunks [OF assms(1,2,3)] async_later_chunks [OF assms(4,5,6)]
  by (simp only: simp_thms)

theorem later_chunks_ignored_witness:
  "assembledJob (receiveSyncJobStream [Chunk (exampleSyncChunk ''a''), Chunk (otherSyncChunk ''b'')]) =
     assembledJob (receiveSyncJobStream [Chunk (exampleSyncChunk ''a''), Chunk (exampleSyncChunk ''b'')]) \<and>
   assembledJob (receiveSyncJobStream [Chunk (exampleSyncChunk ''a''), Chunk (exampleSyncChunk ''b'')]) =
     Some \<lparr>Job_Id = 0, Job_Name = ''job1'', Job_Type = [],
            Job_PluginSet = ''p1,p2'', Job_Label = ''l'', Job_Source = ''s'',
            Job_IsAsync = 0, Job_IsNotify = 0, Job_TaskExceptionOperation = 0,
            Job_Size = 2, Job_Status = 0, Job_Result = []\<rparr> \<and>
   assembledJob (receiveAsyncJobStream [Chunk (exampleAsyncChunk ''a''), Chunk (otherAsyncChunk ''b'')]) =
     assembledJob (receiveAsyncJobStream [Chunk (exampleAsyncChunk ''a''), Chunk (exampleAsyncChunk ''b'')]) \<and>
   assembledJob (receiveAsyncJobStream [Chunk (exampleAsyncChunk ''a''), Chunk (exampleAsyncChunk ''b'')]) =
     Some \<lparr>Job_Id = 0, Job_Name = ''job1'', Job_Type = ''t'',
            Job_PluginSet = ''p1,p2'', Job_Label = ''l'', Job_Source = ''s'',
            Job_IsAsync = 1, Job_IsNotify = 1, Job_TaskExceptionOperation = 0,
            Job_Size = 2, Job_Status = 0, Job_Result = []\<rparr>"
  using later_chunks_ignored
          [of "exampleSyncChunk ''a''" "[exampleSyncChunk ''b'']" "[otherSyncChunk ''b'']"
              "exampleAsyncChunk ''a''" "[exampleAsyncChunk ''b'']" "[otherAsyncChunk ''b'']"]
  by (simp add: exampleSyncChunk_def otherSyncChunk_def exampleAsyncChunk_def
        otherAsyncChunk_def syncJob_def asyncJob_def)

text \<open>
  Claim C7 as stated, for any change of any envelope field, fails for the plugin
  pipeline: emptying the pipeline of the second chunk turns a successful assembly into
  the error \<^verbatim>\<open>ErrPluginSetEmpty\<close> (line 146 checks every chunk), and no job is
  assembled.
\<close>

theorem later_pipeline_checked:
  "assembledJob (receiveSyncJobStream [Chunk (exampleSyncChunk ''a''), Chunk (exampleSyncChunk ''b'')]) =
     Some \<lparr>Job_Id = 0, Job_Name = ''job1'', Job_Type = [],
            Job_PluginSet = ''p1,p2'', Job_Label = ''l'', Job_Source = ''s'',
            Job_IsAsync = 0, Job_IsNotify = 0, Job_TaskExceptionOperation = 0,
            Job_Size = 2, Job_Status = 0, Job_Result = []\<rparr> \<and>
   assembledJob (receiveSyncJobStream
      [Chunk (exampleSyncChunk ''a''), Chunk ((exampleSyncChunk ''b'')\<lparr>SyncReq_PluginSet := []\<rparr>)]) = None \<and>
   receiveSyncJobStream
      [Chunk (exampleSyncChunk ''a''), Chunk ((exampleSyncChunk ''b'')\<lparr>SyncReq_PluginSet := []\<rparr>)] =
     Return (\<lparr>JobInfo_Job = Some \<lparr>Job_Id = 0, Job_Name = ''job1'', Job_Type = [],
                 Job_PluginSet = ''p1,p2'', Job_Label = ''l'', Job_Source = ''s'',
                 Job_IsAsync = 0, Job_IsNotify = 0, Job_TaskExceptionOperation = 0,
                 Job_Size = 0, Job_Status = 0, Job_Result = []\<rparr>,
              JobInfo_TaskList = [newTask 0 ''job1'' ''a'' ''p1'']\<rparr>,
             Some (ToGrpcErr ErrPluginSetEmpty))"
  by (simp add: receiveSyncJobStream_def exampleSyncChunk_def Let_def syncJob_def
        AppendSafeTask_def setSize_def assembledJob_def)

subsection \<open>A chunk without plugin\<close>

lemma syncLoop_empty_plugin:
  assumes "c \<in> set cs" and "SyncReq_PluginSet c = []"
  shows "\<exists>ji'. syncLoop (map Chunk cs @ rest) ji fp sh = Inl (ji', ToGrpcErr ErrPluginSetEmpty)"
  using assms
proof (induction cs arbitrary: ji fp sh)
  case Nil
  then show ?case by simp
next
  case (Cons x cs)
  show ?case
  proof (cases "SyncReq_PluginSet x = []")
    case True
    then show ?thesis by simp
  next
    case False
    with Cons.prems have "c \<in> set cs" by auto
    from Cons.IH [OF this Cons.prems(2)] False show ?thesis
      by (simp add: Let_def)
  qed
qed

lemma asyncLoop_empty_plugin:
  assumes "c \<in> set cs" and "AsyncReq_PluginSet c = []"
  shows "\<exists>ji'. asyncLoop (map Chunk cs @ rest) ji fp sh = Inl (ji', ToGrpcErr ErrPluginSetEmpty)"
  using assms
proof (induction cs arbitrary: ji fp sh)
  case Nil
  then show ?case by simp
next
  case (Cons x cs)
  show ?case
  proof (cases "AsyncReq_PluginSet x = []")
    case True
    then show ?thesis by simp
  next
    case False
    with Cons.prems have "c \<in> set cs" by auto
    from Cons.IH [OF this Cons.prems(2)] False show ?thesis
      by (simp add: Let_def)
  qed
qed

lemma receiveSync_empty_plugin:
  assumes "c \<in> set cs" and "SyncReq_PluginSet c = []"
  shows "\<exists>ji. receiveSyncJobStream (map Chunk cs @ rest) =
           Return (ji, Some (ToGrpcErr ErrPluginSetEmpty))"
  using syncLoop_empty_plugin [OF assms, of rest "\<lparr>JobInfo_Job = None, JobInfo_TaskList = []\<rparr>" "[]" 0]
  by (auto simp: receiveSyncJobStream_def)

lemma receiveAsync_empty_plugin:
  assumes "c \<in> set cs" and "AsyncReq_PluginSet c = []"
  shows "\<exists>ji. receiveAsyncJobStream (map Chunk cs @ rest) =
           Return (ji, Some (ToGrpcErr ErrPluginSetEmpty))"
  using asyncLoop_empty_plugin [OF assms, of rest "\<lparr>JobInfo_Job = None, JobInfo_TaskList = []\<rparr>" "[]" 0]
  by (auto simp: receiveAsyncJobStream_def)

text \<open>
  Claim C3. If the chunks received up to some point include one without a plugin
  (whatever the stream holds after them), the assembler returns the error
  \<^verbatim>\<open>ErrPluginSetEmpty\<close>, and so does the handler, synchronous or asynchronous:
  it returns that error and leaves the world as it found it. The storage is unchanged and
  no call was made to any collaborator, in particular none to \<^verbatim>\<open>Save\<close> or
  \<^verbatim>\<open>BatchSave\<close>, and no response was sent.
\<close>

theorem empty_plugin_aborts:
  assumes "c \<in> set cs" and "SyncReq_PluginSet c = []"
    and "a \<in> set ds" and "AsyncReq_PluginSet a = []"
  shows "(\<exists>ji. receiveSyncJobStream (map Chunk cs @ rest) =
            Return (ji, Some (ToGrpcErr ErrPluginSetEmpty))) \<and>
         SyncSubmit s w (map Chunk cs @ rest) = Return (Some (ToGrpcErr ErrPluginSetEmpty), w) \<and>
         (\<exists>ji. receiveAsyncJobStream (map Chunk ds @ rest') =
            Return (ji, Some (ToGrpcErr ErrPluginSetEmpty))) \<and>
         AsyncSubmit s sched w (map Chunk ds @ rest') =
           Return (Some (ToGrpcErr ErrPluginSetEmpty), w)"
proof -
  from receiveSync_empty_plugin [OF assms(1,2), of rest] obtain ji
    where sy: "receiveSyncJobStream (map Chunk cs @ rest) =
                 Return (ji, Some (ToGrpcErr ErrPluginSetEmpty))" ..
  from receiveAsync_empty_plugin [OF assms(3,4), of rest'] obtain ji'
    where asy: "receiveAsyncJobStream (map Chunk ds @ rest') =
                  Return (ji', Some (ToGrpcErr ErrPluginSetEmpty))" ..
  have "SyncSubmit s w (map Chunk cs @ rest) = Return (Some (ToGrpcErr ErrPluginSetEmpty), w)"
    by (simp add: SyncSubmit_def sy)
  moreover
  have "AsyncSubmit s sched w (map Chunk ds @ rest') =
          Return (Some (ToGrpcErr ErrPluginSetEmpty), w)"
    by (simp add: AsyncSubmit_def asy)
  ultimately show ?thesis
    using sy asy by blast
qed

theorem empty_plugin_aborts_witness:
  "SyncSubmit memEnv emptyWorld
     [Chunk (exampleSyncChunk ''a''), Chunk ((exampleSyncChunk ''b'')\<lparr>SyncReq_PluginSet := []\<rparr>),
      Chunk (exampleSyncChunk ''c'')]
     = Return (Some (ToGrpcErr ErrPluginSetEmpty), emptyWorld) \<and>
   AsyncSubmit memEnv GoroutineFirst emptyWorld
     [Chunk (exampleAsyncChunk ''a''), Chunk ((exampleAsyncChunk ''b'')\<lparr>AsyncReq_PluginSet := []\<rparr>),
      Chunk (exampleAsyncChunk ''c'')]
     = Return (Some (ToGrpcErr ErrPluginSetEmpty), emptyWorld) \<and>
   filter isWrite (world_calls emptyWorld) = []"
  using empty_plugin_aborts
          [of "(exampleSyncChunk ''b'')\<lparr>SyncReq_PluginSet := []\<rparr>"
              "[exampleSyncChunk ''a'', (exampleSyncChunk ''b'')\<lparr>SyncReq_PluginSet := []\<rparr>]"
              "(exampleAsyncChunk ''b'')\<lparr>AsyncReq_PluginSet := []\<rparr>"
              "[exampleAsyncChunk ''a'', (exampleAsyncChunk ''b'')\<lparr>AsyncReq_PluginSet := []\<rparr>]"
              "[Chunk (exampleSyncChunk ''c'')]" memEnv emptyWorld
              "[Chunk (exampleAsyncChunk ''c'')]" GoroutineFirst]
  by (simp add: emptyWorld_def)

subsection \<open>Persistence\<close>

lemma stampJobId_Some:
  "stampJobId (Some j) tasks = Return (map (\<lambda>t. t\<lparr>Task_JobId := Job_Id j\<rparr>) tasks)"
  by (induction tasks) simp_all

text \<open>
  Claim C2. Let the aggregate hold a job. \<^verbatim>\<open>persistence\<close> first calls
  \<^verbatim>\<open>Save\<close> on the job, inside the transaction. If that fails, its error is the
  result, nothing else is called and the storage is as before. Otherwise every task gets
  the identifier the job has after \<^verbatim>\<open>Save\<close>, and \<^verbatim>\<open>BatchSave\<close> is called
  with these tasks on the handle \<^verbatim>\<open>Save\<close> left. If that fails, its error is the
  result and the storage is as before (the saved job is rolled back with the tasks); if it
  succeeds, the result is no error and the storage is the state after both writes.
\<close>

theorem persistence_atomic:
  assumes "JobInfo_Job jobInfo = Some j"
    and "jobRepo_Save s (world_Db w) (Some j) = (err1, upd, tx1)"
    and "stamped = map (\<lambda>t. t\<lparr>Task_JobId := Job_Id (upd j)\<rparr>) (JobInfo_TaskList jobInfo)"
    and "taskRepo_BatchSave s tx1 stamped = (err2, tasks2, tx2)"
  shows "persistence s w jobInfo =
           Return
             (if err1 = None then err2 else err1,
              \<lparr>JobInfo_Job = Some (upd j),
               JobInfo_TaskList = (if err1 = None then tasks2 else JobInfo_TaskList jobInfo)\<rparr>,
              \<lparr>world_Db = (if err1 = None \<and> err2 = None then tx2 else world_Db w),
               world_calls = world_calls w @
                 (if err1 = None then [CallSave (Some j), CallBatchSave stamped]
                  else [CallSave (Some j)])\<rparr>) \<and>
         (\<forall>t\<in>set stamped. Task_JobId t = Job_Id (upd j))"
proof (cases err1)
  case None
  show ?thesis
  proof (cases err2)
    case None
    with \<open>err1 = None\<close> assms show ?thesis
      by (cases jobInfo)
         (auto simp: persistence_def Transaction_def persistenceTx_def stampJobId_Some)
  next
    case (Some e)
    with \<open>err1 = None\<close> assms show ?thesis
      by (cases jobInfo)
         (auto simp: persistence_def Transaction_def persistenceTx_def stampJobId_Some)
  qed
next
  case (Some e)
  with assms show ?thesis
    by (cases jobInfo)
       (auto simp: persistence_def Transaction_def persistenceTx_def)
qed


text \<open>
  A \<^verbatim>\<open>BatchSave\<close> that writes the tasks and then fails: the job row written by
  \<^verbatim>\<open>Save\<close> is not in the storage afterwards.
\<close>

theorem persistence_atomic_witness:
  "persistence (memEnv\<lparr>taskRepo_BatchSave := failingBatchSave\<rparr>) emptyWorld
     \<lparr>JobInfo_Job = Some (syncJob (exampleSyncChunk ''a'')),
      JobInfo_TaskList = [newTask 0 ''job1'' ''a'' ''p1'']\<rparr> =
   Return
     (Some (ExternalErr ''disk full''),
      \<lparr>JobInfo_Job = Some ((syncJob (exampleSyncChunk ''a''))\<lparr>Job_Id := 1\<rparr>),
       JobInfo_TaskList = [(newTask 0 ''job1'' ''a'' ''p1'')\<lparr>Task_JobId := 1\<rparr>]\<rparr>,
      \<lparr>world_Db = \<lparr>mem_jobs = [], mem_tasks = []\<rparr>,
       world_calls =
         [CallSave (Some (syncJob (exampleSyncChunk ''a''))),
          CallBatchSave [(newTask 0 ''job1'' ''a'' ''p1'')\<lparr>Task_JobId := 1\<rparr>]]\<rparr>)"
  using persistence_atomic
          [of "\<lparr>JobInfo_Job = Some (syncJob (exampleSyncChunk ''a'')),
                JobInfo_TaskList = [newTask 0 ''job1'' ''a'' ''p1'']\<rparr>"
              "syncJob (exampleSyncChunk ''a'')"
              "memEnv\<lparr>taskRepo_BatchSave := failingBatchSave\<rparr>" emptyWorld
              None "\<lambda>j. j\<lparr>Job_Id := 1\<rparr>"
              "\<lparr>mem_jobs = [(syncJob (exampleSyncChunk ''a''))\<lparr>Job_Id := 1\<rparr>], mem_tasks = []\<rparr>"
              "[(newTask 0 ''job1'' ''a'' ''p1'')\<lparr>Task_JobId := 1\<rparr>]"
              "Some (ExternalErr ''disk full'')"
              "[(newTask 0 ''job1'' ''a'' ''p1'')\<lparr>Task_JobId := 1\<rparr>]"
              "\<lparr>mem_jobs = [(syncJob (exampleSyncChunk ''a''))\<lparr>Job_Id := 1\<rparr>],
                mem_tasks = [(newTask 0 ''job1'' ''a'' ''p1'')\<lparr>Task_JobId := 1\<rparr>]\<rparr>"]
  by (simp add: memEnv_def emptyWorld_def memSave_def failingBatchSave_def Let_def)

subsection \<open>Reconciliation\<close>

text \<open>
  Claim C6. Let the aggregate hold a job. \<^verbatim>\<open>reloadJobInfo\<close> looks the job up by
  its identifier. A storage error of the lookup is returned as it is. Without error and
  without job, the result is the error \<^verbatim>\<open>ErrJobNotFound\<close>. Otherwise the tasks
  are listed under the identifier of the job found: the aggregate returned holds that job
  and those tasks in place of the old ones, and the error is the one of the listing (none
  or a storage error, as it is). The storage is only read.
\<close>

theorem reloadJobInfo_reloads:
  assumes "JobInfo_Job jobInfo = Some j"
    and "jobRepo_FindById s (world_Db w) (Job_Id j) = (job, err)"
  shows "(\<forall>e. err = Some e \<longrightarrow>
            reloadJobInfo s w (Some jobInfo) =
              Return (jobInfo\<lparr>JobInfo_Job := job\<rparr>, Some e,
                      w\<lparr>world_calls := world_calls w @ [CallFindById (Job_Id j)]\<rparr>)) \<and>
         (err = None \<and> job = None \<longrightarrow>
            reloadJobInfo s w (Some jobInfo) =
              Return (jobInfo\<lparr>JobInfo_Job := None\<rparr>, Some (ToGrpcErr ErrJobNotFound),
                      w\<lparr>world_calls := world_calls w @ [CallFindById (Job_Id j)]\<rparr>)) \<and>
         (\<forall>j'. err = None \<and> job = Some j' \<longrightarrow>
            reloadJobInfo s w (Some jobInfo) =
              Return (\<lparr>JobInfo_Job = Some j',
                       JobInfo_TaskList = fst (taskRepo_List s (world_Db w) (Job_Id j'))\<rparr>,
                      snd (taskRepo_List s (world_Db w) (Job_Id j')),
                      w\<lparr>world_calls :=
                           world_calls w @ [CallFindById (Job_Id j), CallList (Job_Id j')]\<rparr>))"
  using assms
  by (cases jobInfo) (auto simp: reloadJobInfo_def Let_def split: prod.splits)

theorem reloadJobInfo_reloads_witness:
  "reloadJobInfo memEnv storedWorld
     (Some \<lparr>JobInfo_Job = Some ((syncJob (exampleSyncChunk ''a''))\<lparr>Job_Id := 1\<rparr>),
            JobInfo_TaskList = [newTask 0 ''job1'' ''a'' ''p1'']\<rparr>) =
     Return (\<lparr>JobInfo_Job = Some storedJob, JobInfo_TaskList = storedTasks\<rparr>, None,
             storedWorld\<lparr>world_calls := [CallFindById 1, CallList 1]\<rparr>) \<and>
   reloadJobInfo memEnv emptyWorld
     (Some \<lparr>JobInfo_Job = Some ((syncJob (exampleSyncChunk ''a''))\<lparr>Job_Id := 1\<rparr>),
            JobInfo_TaskList = [newTask 0 ''job1'' ''a'' ''p1'']\<rparr>) =
     Return (\<lparr>JobInfo_Job = None, JobInfo_TaskList = [newTask 0 ''job1'' ''a'' ''p1'']\<rparr>,
             Some (ToGrpcErr ErrJobNotFound),
             emptyWorld\<lparr>world_calls := [CallFindById 1]\<rparr>) \<and>
   reloadJobInfo (memEnv\<lparr>jobRepo_FindById := failingFindById\<rparr>) storedWorld
     (Some \<lparr>JobInfo_Job = Some ((syncJob (exampleSyncChunk ''a''))\<lparr>Job_Id := 1\<rparr>),
            JobInfo_TaskList = [newTask 0 ''job1'' ''a'' ''p1'']\<rparr>) =
     Return (\<lparr>JobInfo_Job = None, JobInfo_TaskList = [newTask 0 ''job1'' ''a'' ''p1'']\<rparr>,
             Some (ExternalErr ''timeout''),
             storedWorld\<lparr>world_calls := [CallFindById 1]\<rparr>)"
  using reloadJobInfo_reloads
          [of "\<lparr>JobInfo_Job = Some ((syncJob (exampleSyncChunk ''a''))\<lparr>Job_Id := 1\<rparr>),
                JobInfo_TaskList = [newTask 0 ''job1'' ''a'' ''p1'']\<rparr>"
              "(syncJob (exampleSyncChunk ''a''))\<lparr>Job_Id := 1\<rparr>"
              memEnv storedWorld "Some storedJob" None]
        reloadJobInfo_reloads
          [of "\<lparr>JobInfo_Job = Some ((syncJob (exampleSyncChunk ''a''))\<lparr>Job_Id := 1\<rparr>),
                JobInfo_TaskList = [newTask 0 ''job1'' ''a'' ''p1'']\<rparr>"
              "(syncJob (exampleSyncChunk ''a''))\<lparr>Job_Id := 1\<rparr>"
              memEnv emptyWorld None None]
        reloadJobInfo_reloads
          [of "\<lparr>JobInfo_Job = Some ((syncJob (exampleSyncChunk ''a''))\<lparr>Job_Id := 1\<rparr>),
                JobInfo_TaskList = [newTask 0 ''job1'' ''a'' ''p1'']\<rparr>"
              "(syncJob (exampleSyncChunk ''a''))\<lparr>Job_Id := 1\<rparr>"
              "memEnv\<lparr>jobRepo_FindById := failingFindById\<rparr>" storedWorld
              None "Some (ExternalErr ''timeout'')"]
  by (simp add: memEnv_def storedWorld_def emptyWorld_def memFindById_def memList_def
        failingFindById_def storedJob_def storedTasks_def newTask_def)

subsection \<open>Synchronous submission\<close>

lemma responses_append: "responses (xs @ ys) = responses xs @ responses ys"
  by (induction xs rule: responses.induct) simp_all

lemma persistence_responses:
  assumes "persistence s w jobInfo = Return (err, jobInfo', w')"
  shows "responses (world_calls w') = responses (world_calls w)"
  using assms
  by (auto simp: persistence_def Transaction_def persistenceTx_def Let_def responses_append
           split: prod.splits option.splits outcome.splits)

lemma reloadJobInfo_responses:
  assumes "reloadJobInfo s w ptr = Return (jobInfo', err, w')"
  shows "responses (world_calls w') = responses (world_calls w)"
  using assms
  by (auto simp: reloadJobInfo_def Let_def responses_append
           split: prod.splits option.splits)

text \<open>
  Claim C4, as amended. Let assembly, persistence and reconciliation succeed, and let
  \<^verbatim>\<open>StartJob\<close> return on the reconciled aggregate, leaving the job pointer of
  the aggregate set (the handler reads the job through it after the call, on line 89 for
  the log entry of a failure and on lines 94 to 96 for the response). If
  \<^verbatim>\<open>StartJob\<close> returned an error, \<^verbatim>\<open>SyncSubmit\<close> returns that error and
  has sent no response. If it returned none, \<^verbatim>\<open>SyncSubmit\<close> sends exactly one
  response, after the call of \<^verbatim>\<open>StartJob\<close>, carrying the identifier, status and
  result the job has once \<^verbatim>\<open>StartJob\<close> has returned, and returns what
  \<^verbatim>\<open>SendAndClose\<close> returns.
\<close>

theorem SyncSubmit_after_StartJob:
  assumes "receiveSyncJobStream stream = Return (jobInfo, None)"
    and "JobInfo_Job jobInfo = Some j"
    and "persistence s w (jobInfo\<lparr>JobInfo_Job := Some (j\<lparr>Job_IsAsync := 0\<rparr>)\<rparr>) =
           Return (None, jobInfo2, w2)"
    and "reloadJobInfo s w2 (Some jobInfo2) = Return (jobInfo3, None, w3)"
    and "appCtx_StartJob s jobInfo3 (world_Db w3) = (err, jobInfo4, db4)"
    and "JobInfo_Job jobInfo4 = Some j4"
    and "resp = SyncSubmitResponse (Job_Id j4) (Job_Status j4) (Job_Result j4)"
  shows "SyncSubmit s w stream =
           Return
             (case err of
                Some e \<Rightarrow>
                  (Some e,
                   \<lparr>world_Db = db4, world_calls = world_calls w3 @ [CallStartJob jobInfo3]\<rparr>)
              | None \<Rightarrow>
                  (stream_SendAndClose s resp,
                   \<lparr>world_Db = db4,
                    world_calls = world_calls w3 @ [CallStartJob jobInfo3, CallSendAndClose resp]\<rparr>)) \<and>
         observed (SyncSubmit s w stream) =
           Some (case err of
                   Some e \<Rightarrow> (Some e, responses (world_calls w))
                 | None \<Rightarrow> (stream_SendAndClose s resp, responses (world_calls w) @ [resp]))"
proof -
  have r: "responses (world_calls w3) = responses (world_calls w)"
    using persistence_responses [OF assms(3)] reloadJobInfo_responses [OF assms(4)] by simp
  have run: "SyncSubmit s w stream =
           Return
             (case err of
                Some e \<Rightarrow>
                  (Some e,
                   \<lparr>world_Db = db4, world_calls = world_calls w3 @ [CallStartJob jobInfo3]\<rparr>)
              | None \<Rightarrow>
                  (stream_SendAndClose s resp,
                   \<lparr>world_Db = db4,
                    world_calls = world_calls w3 @ [CallStartJob jobInfo3, CallSendAndClose resp]\<rparr>))"
    using assms by (simp add: SyncSubmit_def Let_def split: option.splits)
  show ?thesis
    unfolding run using r
    by (simp add: observed_def responses_append split: option.splits)
qed

text \<open>The definitions to unfold when a run is computed on the examples.\<close>

lemmas example_defs =
  memEnv_def emptyWorld_def memSave_def memBatchSave_def memFindById_def memList_def
  doneStartJob_def failingStartJob_def exampleSyncChunk_def exampleAsyncChunk_def
  storedJob_def storedTasks_def

lemmas service_defs =
  receiveSyncJobStream_def receiveAsyncJobStream_def setSize_def AppendSafeTask_def
  syncJob_def asyncJob_def newTask_def persistence_def persistenceTx_def Transaction_def
  reloadJobInfo_def Let_def

theorem SyncSubmit_after_StartJob_witness:
  "observed (SyncSubmit memEnv emptyWorld
       [Chunk (exampleSyncChunk ''a''), Chunk (exampleSyncChunk ''b'')]) =
     Some (None, [SyncSubmitResponse 1 2 ''R'']) \<and>
   observed (SyncSubmit (memEnv\<lparr>appCtx_StartJob := failingStartJob\<rparr>) emptyWorld
       [Chunk (exampleSyncChunk ''a''), Chunk (exampleSyncChunk ''b'')]) =
     Some (Some (ExternalErr ''engine down''), [])"
proof -
  let ?stream = "[Chunk (exampleSyncChunk ''a''), Chunk (exampleSyncChunk ''b'')]"
  let ?j = "(syncJob (exampleSyncChunk ''a''))\<lparr>Job_Size := 2\<rparr>"
  let ?ji = "\<lparr>JobInfo_Job = Some ?j,
              JobInfo_TaskList = [newTask 0 ''job1'' ''a'' ''p1'', newTask 1 ''job1'' ''b'' ''p1'']\<rparr>"
  let ?ji2 = "\<lparr>JobInfo_Job = Some storedJob, JobInfo_TaskList = storedTasks\<rparr>"
  let ?db = "\<lparr>mem_jobs = [storedJob], mem_tasks = storedTasks\<rparr>"
  let ?w2 = "\<lparr>world_Db = ?db, world_calls = [CallSave (Some ?j), CallBatchSave storedTasks]\<rparr>"
  let ?w3 = "\<lparr>world_Db = ?db,
              world_calls = [CallSave (Some ?j), CallBatchSave storedTasks,
                             CallFindById 1, CallList 1]\<rparr>"
  let ?j4 = "storedJob\<lparr>Job_Status := 2, Job_Result := ''R''\<rparr>"
  let ?ji4 = "\<lparr>JobInfo_Job = Some ?j4, JobInfo_TaskList = storedTasks\<rparr>"
  show ?thesis
    using SyncSubmit_after_StartJob
            [where stream = ?stream and jobInfo = ?ji and j = ?j and s = memEnv
               and w = emptyWorld and ?jobInfo2.0 = ?ji2 and ?w2.0 = ?w2 and ?jobInfo3.0 = ?ji2
               and ?w3.0 = ?w3 and err = None and ?jobInfo4.0 = ?ji4 and ?db4.0 = ?db
               and ?j4.0 = ?j4 and resp = "SyncSubmitResponse 1 2 ''R''"]
          SyncSubmit_after_StartJob
            [where stream = ?stream and jobInfo = ?ji and j = ?j
               and s = "memEnv\<lparr>appCtx_StartJob := failingStartJob\<rparr>"
               and w = emptyWorld and ?jobInfo2.0 = ?ji2 and ?w2.0 = ?w2 and ?jobInfo3.0 = ?ji2
               and ?w3.0 = ?w3 and err = "Some (ExternalErr ''engine down'')"
               and ?jobInfo4.0 = ?ji4 and ?db4.0 = ?db
               and ?j4.0 = ?j4 and resp = "SyncSubmitResponse 1 2 ''R''"]
    by (simp add: example_defs service_defs observed_def)
qed

text \<open>
  Claim C4 as stated, for every engine, fails for an engine that returns an error and has
  set the job pointer of the aggregate to nil: the log call of line 89 reads
  \<^verbatim>\<open>jobInfo.Job.Id\<close> before \<^verbatim>\<open>return err\<close>, so the handler panics and the
  engine's error is not returned.
\<close>

theorem SyncSubmit_engine_drops_job:
  "SyncSubmit (memEnv\<lparr>appCtx_StartJob := droppingStartJob\<rparr>) emptyWorld
       [Chunk (exampleSyncChunk ''a''), Chunk (exampleSyncChunk ''b'')] =
     Panic nilDereference \<and>
   observed (SyncSubmit (memEnv\<lparr>appCtx_StartJob := droppingStartJob\<rparr>) emptyWorld
       [Chunk (exampleSyncChunk ''a''), Chunk (exampleSyncChunk ''b'')]) \<noteq>
     Some (Some (ExternalErr ''engine down''), [])"
  by (simp add: SyncSubmit_def observed_def droppingStartJob_def example_defs service_defs)

subsection \<open>Asynchronous submission\<close>

lemma persistenceTx_StartJob_update:
  "persistenceTx (s\<lparr>appCtx_StartJob := f\<rparr>) jobInfo log = persistenceTx s jobInfo log"
  by (rule ext)
     (simp add: persistenceTx_def Let_def
        cong: option.case_cong prod.case_cong outcome.case_cong)

lemma persistence_StartJob_update:
  "persistence (s\<lparr>appCtx_StartJob := f\<rparr>) w jobInfo = persistence s w jobInfo"
  by (simp add: persistence_def persistenceTx_StartJob_update)

lemma reloadJobInfo_StartJob_update:
  "reloadJobInfo (s\<lparr>appCtx_StartJob := f\<rparr>) w ptr = reloadJobInfo s w ptr"
  by (simp add: reloadJobInfo_def Let_def
        cong: option.case_cong prod.case_cong outcome.case_cong)

text \<open>
  Claim C5. Two execution engines that do the same to the aggregate and to the storage
  and differ only in the error they return cannot be told apart through
  \<^verbatim>\<open>AsyncSubmit\<close>: on the same stream, from the same world, with the same
  repositories, under either order of goroutine and response, the handler returns the
  same error and leaves the same world, with the same response sent.
\<close>

theorem AsyncSubmit_ignores_StartJob_error:
  assumes "\<forall>jobInfo db. snd (startJob' jobInfo db) = snd (appCtx_StartJob s jobInfo db)"
  shows "AsyncSubmit (s\<lparr>appCtx_StartJob := startJob'\<rparr>) sched w stream =
           AsyncSubmit s sched w stream"
proof -
  have eq: "(case startJob' ji db of (ignored, ji4, db4) \<Rightarrow> k ji4 db4) =
            (case appCtx_StartJob s ji db of (ignored, ji4, db4) \<Rightarrow> k ji4 db4)"
    for ji db and k :: "JobInfo \<Rightarrow> 'a \<Rightarrow> (error option \<times> 'a world) outcome"
    using assms [rule_format, of ji db]
    by (cases "startJob' ji db"; cases "appCtx_StartJob s ji db") simp
  show ?thesis
    unfolding AsyncSubmit_def persistence_StartJob_update reloadJobInfo_StartJob_update
    by (simp add: eq cong: outcome.case_cong option.case_cong prod.case_cong schedule.case_cong)
qed


theorem AsyncSubmit_ignores_StartJob_error_witness:
  "AsyncSubmit (memEnv\<lparr>appCtx_StartJob := failingStartJob\<rparr>) GoroutineFirst emptyWorld
       [Chunk (exampleAsyncChunk ''a''), Chunk (exampleAsyncChunk ''b'')] =
     AsyncSubmit memEnv GoroutineFirst emptyWorld
       [Chunk (exampleAsyncChunk ''a''), Chunk (exampleAsyncChunk ''b'')] \<and>
   observed (AsyncSubmit memEnv GoroutineFirst emptyWorld
       [Chunk (exampleAsyncChunk ''a''), Chunk (exampleAsyncChunk ''b'')]) =
     Some (None, [AsyncSubmitResponse 1])"
proof -
  have same: "\<forall>jobInfo db. snd (failingStartJob jobInfo db) = snd (appCtx_StartJob memEnv jobInfo db)"
    by (simp add: failingStartJob_def memEnv_def)
  have "observed (AsyncSubmit memEnv GoroutineFirst emptyWorld
       [Chunk (exampleAsyncChunk ''a''), Chunk (exampleAsyncChunk ''b'')]) =
     Some (None, [AsyncSubmitResponse 1])"
    by (simp add: AsyncSubmit_def observed_def example_defs service_defs)
  with AsyncSubmit_ignores_StartJob_error [OF same] show ?thesis
    by simp
qed

end
